theory Spec2Isabelle
  imports Main "HOL-Library.Word"
begin

section \<open>JavaScript strings\<close>

text \<open>
  A JavaScript string is a sequence of UTF-16 code units; \<open>length\<close>, \<open>substring\<close>,
  \<open>includes\<close> and \<open>split\<close> all count code units. \<open>js\<close> embeds an ASCII literal.
\<close>

type_synonym jschar = "16 word"
type_synonym jsstring = "jschar list"

definition js :: "string \<Rightarrow> jsstring" where
  "js s = map (\<lambda>c. of_nat (of_char c)) s"

text \<open>
  The code units removed by \<open>String.prototype.trim\<close>: ECMAScript WhiteSpace (TAB, VT, FF,
  SP, NBSP, ZWNBSP and the Unicode space separators) and LineTerminator (LF, CR, LS, PS).
\<close>

definition isWhiteSpace :: "jschar \<Rightarrow> bool" where
  "isWhiteSpace c \<longleftrightarrow>
     c \<in> {0x09, 0x0A, 0x0B, 0x0C, 0x0D, 0x20, 0xA0, 0x1680,
          0x2028, 0x2029, 0x202F, 0x205F, 0x3000, 0xFEFF}
     \<or> (0x2000 \<le> c \<and> c \<le> 0x200A)"

definition trim :: "jsstring \<Rightarrow> jsstring" where
  "trim s = rev (dropWhile isWhiteSpace (rev (dropWhile isWhiteSpace s)))"

text \<open>\<open>text.includes(keyword)\<close>: the keyword occurs as a contiguous run of code units.\<close>

fun startsWith :: "'a list \<Rightarrow> 'a list \<Rightarrow> bool" where
  "startsWith s [] = True"
| "startsWith [] (k # ks) = False"
| "startsWith (c # cs) (k # ks) = (c = k \<and> startsWith cs ks)"

fun str_includes :: "'a list \<Rightarrow> 'a list \<Rightarrow> bool" where
  "str_includes [] k = (k = [])"
| "str_includes (c # cs) k = (startsWith (c # cs) k \<or> str_includes cs k)"

text \<open>\<open>s.substring(0, n)\<close>.\<close>

definition substring0 :: "jsstring \<Rightarrow> nat \<Rightarrow> jsstring" where
  "substring0 s n = take n s"

text \<open>\<open>parts.join(sep)\<close>.\<close>

fun join :: "jsstring \<Rightarrow> jsstring list \<Rightarrow> jsstring" where
  "join sep [] = []"
| "join sep [x] = x"
| "join sep (x # y # ys) = x @ sep @ join sep (y # ys)"

text \<open>The first piece of \<open>s.split(' ')\<close>: everything before the first space.\<close>

definition split_space_first :: "jsstring \<Rightarrow> jsstring" where
  "split_space_first s = takeWhile (\<lambda>c. c \<noteq> 0x20) s"

section \<open>The page seen by the content script\<close>

text \<open>
  The content script reads two things of its page: \<open>window.location.href\<close> and the result
  of \<open>document.querySelectorAll(selector)\<close>, of which only the \<open>textContent\<close> of each
  matched element (in document order) is used. \<open>document.querySelector\<close> is the first
  element of that list, or \<open>null\<close>.
\<close>

record page =
  href :: jsstring
  querySelectorAll :: "jsstring \<Rightarrow> jsstring list"

definition querySelector :: "page \<Rightarrow> jsstring \<Rightarrow> jsstring option" where
  "querySelector d selector =
     (case querySelectorAll d selector of [] \<Rightarrow> None | textContent # _ \<Rightarrow> Some textContent)"

subsection \<open>Field extractors of \<open>LinkedInConnectionAssistant\<close>\<close>

text \<open>
  The loop shared by \<open>extractName\<close>, \<open>extractHeadline\<close>, \<open>extractCompany\<close>,
  \<open>extractLocation\<close> and \<open>extractAbout\<close>:
  \<^verbatim>\<open>for (const selector of selectors) {
    const element = document.querySelector(selector);
    if (element && element.textContent.trim()) { return <element.textContent.trim()>; } }\<close>
  \<open>None\<close> is falling out of the loop.
\<close>

fun firstTrimmedText :: "page \<Rightarrow> jsstring list \<Rightarrow> jsstring option" where
  "firstTrimmedText d [] = None"
| "firstTrimmedText d (selector # rest) =
     (case querySelector d selector of
        None \<Rightarrow> firstTrimmedText d rest
      | Some textContent \<Rightarrow>
          if trim textContent \<noteq> [] then Some (trim textContent)
          else firstTrimmedText d rest)"

definition nameSelectors :: "jsstring list" where
  "nameSelectors =
     [js ''h1.text-heading-xlarge'',
      js ''.pv-text-details__left-panel h1'',
      js ''.pv-top-card--list-bullet h1'',
      js ''.ph5 h1'',
      js ''h1.break-words'']"

definition extractName :: "page \<Rightarrow> jsstring" where
  "extractName d =
     (case firstTrimmedText d nameSelectors of Some t \<Rightarrow> t | None \<Rightarrow> js ''there'')"

definition headlineSelectors :: "jsstring list" where
  "headlineSelectors =
     [js ''.text-body-medium.break-words'',
      js ''.pv-text-details__left-panel .text-body-medium'',
      js ''.pv-top-card .pv-top-card__headline'',
      js ''.ph5 .text-body-medium'']"

definition extractHeadline :: "page \<Rightarrow> jsstring" where
  "extractHeadline d =
     (case firstTrimmedText d headlineSelectors of Some t \<Rightarrow> t | None \<Rightarrow> [])"

definition companySelectors :: "jsstring list" where
  "companySelectors =
     [js ''.pv-text-details__left-panel .pv-entity__secondary-title'',
      js ''.pv-top-card .pv-entity__secondary-title'',
      js ''.ph5 .pv-entity__secondary-title'',
      js ''.experience-section .pv-entity__summary-info .pv-entity__secondary-title'',
      js ''[data-field=\"experience\"] .pv-entity__summary-info .pv-entity__secondary-title'']"

definition extractCompany :: "page \<Rightarrow> jsstring" where
  "extractCompany d =
     (case firstTrimmedText d companySelectors of Some t \<Rightarrow> t | None \<Rightarrow> [])"

definition locationSelectors :: "jsstring list" where
  "locationSelectors =
     [js ''.text-body-small.inline.t-black--light'',
      js ''.pv-text-details__left-panel .text-body-small'',
      js ''.pv-top-card .pv-top-card__location'',
      js ''.ph5 .text-body-small'']"

definition extractLocation :: "page \<Rightarrow> jsstring" where
  "extractLocation d =
     (case firstTrimmedText d locationSelectors of Some t \<Rightarrow> t | None \<Rightarrow> [])"

definition aboutSelectors :: "jsstring list" where
  "aboutSelectors =
     [js ''.pv-shared-text-with-see-more-text .break-words'',
      js ''.pv-about__summary-text .break-words'',
      js ''[data-field=\"summary\"] .break-words'',
      js ''.about-section .pv-shared-text-with-see-more-text'']"

definition extractAbout :: "page \<Rightarrow> jsstring" where
  "extractAbout d =
     (case firstTrimmedText d aboutSelectors of
        Some t \<Rightarrow> substring0 t 200 @ js ''...''
      | None \<Rightarrow> [])"

definition experienceSelectors :: "jsstring list" where
  "experienceSelectors =
     [js ''.experience-section .pv-entity__summary-info'',
      js ''[data-field=\"experience\"] .pv-entity__summary-info'',
      js ''.pvs-list__item--experience .pvs-entity__summary-info'']"

fun experienceLoop :: "page \<Rightarrow> jsstring list \<Rightarrow> jsstring" where
  "experienceLoop d [] = []"
| "experienceLoop d (selector # rest) =
     (let elements = querySelectorAll d selector in
      if length elements > 0 then join (js ''; '') (map trim (take 2 elements))
      else experienceLoop d rest)"

definition extractExperience :: "page \<Rightarrow> jsstring" where
  "extractExperience d = experienceLoop d experienceSelectors"

subsection \<open>Industry classification\<close>

text \<open>
  The keyword table of \<open>extractIndustry\<close>. \<open>Object.entries\<close> enumerates the string keys of
  an object literal in the order they are written, so the table is this list.
\<close>

definition industries :: "(jsstring \<times> jsstring list) list" where
  "industries =
     [(js ''tech'', map js [''software'', ''developer'', ''engineer'', ''tech'', ''programming'',
         ''coding'', ''javascript'', ''python'', ''react'', ''node'']),
      (js ''marketing'', map js [''marketing'', ''digital'', ''social media'', ''seo'', ''content'',
         ''brand'', ''advertising'']),
      (js ''sales'', map js [''sales'', ''business development'', ''account'', ''revenue'',
         ''client'', ''customer'']),
      (js ''finance'', map js [''finance'', ''financial'', ''investment'', ''banking'',
         ''accounting'', ''analyst'']),
      (js ''healthcare'', map js [''healthcare'', ''medical'', ''doctor'', ''nurse'', ''physician'',
         ''hospital'', ''clinic'']),
      (js ''education'', map js [''education'', ''teacher'', ''professor'', ''academic'',
         ''university'', ''school'']),
      (js ''consulting'', map js [''consulting'', ''consultant'', ''advisory'', ''strategy'',
         ''management''])]"

text \<open>
  \<^verbatim>\<open>for (const [industry, keywords] of Object.entries(industries)) {
    if (keywords.some(keyword => text.includes(keyword))) { return industry; } }
  return 'professional';\<close>
\<close>

fun industryLoop :: "jsstring \<Rightarrow> (jsstring \<times> jsstring list) list \<Rightarrow> jsstring" where
  "industryLoop text [] = js ''professional''"
| "industryLoop text ((industry, keywords) # rest) =
     (if list_ex (\<lambda>keyword. str_includes text keyword) keywords then industry
      else industryLoop text rest)"

text \<open>
  The text that is classified. \<open>toLowerCase\<close> is the runtime's Unicode lower-casing, a
  parameter of the model.
\<close>

definition industryText :: "(jsstring \<Rightarrow> jsstring) \<Rightarrow> page \<Rightarrow> jsstring" where
  "industryText toLowerCase d =
     (let headline = extractHeadline d;
          about = extractAbout d;
          company = extractCompany d
      in toLowerCase (headline @ js '' '' @ about @ js '' '' @ company))"

definition extractIndustry :: "(jsstring \<Rightarrow> jsstring) \<Rightarrow> page \<Rightarrow> jsstring" where
  "extractIndustry toLowerCase d = industryLoop (industryText toLowerCase d) industries"

section \<open>JavaScript values\<close>

text \<open>
  Messages, responses and stored settings are JSON-like values. An object is the list of
  its own properties in insertion order. Numbers are modelled as integers: the code only
  creates the counter \<open>messagesGenerated\<close>.
\<close>

datatype jsval =
    JUndefined
  | JNull
  | JBool bool
  | JNum int
  | JStr jsstring
  | JArr "jsval list"
  | JObj "(jsstring \<times> jsval) list"

type_synonym jsobject = "(jsstring \<times> jsval) list"

text \<open>\<open>obj.key\<close> on an object: the property's value, \<open>undefined\<close> when it is absent.\<close>

definition field :: "jsobject \<Rightarrow> jsstring \<Rightarrow> jsval" where
  "field obj key = (case map_of obj key of None \<Rightarrow> JUndefined | Some v \<Rightarrow> v)"

text \<open>\<open>obj.key = v\<close>: an existing property keeps its place, a new one is appended.\<close>

fun put :: "jsstring \<Rightarrow> jsval \<Rightarrow> jsobject \<Rightarrow> jsobject" where
  "put key v [] = [(key, v)]"
| "put key v ((k, w) # rest) = (if k = key then (key, v) # rest else (k, w) # put key v rest)"

text \<open>\<open>{...a, ...b}\<close> and the merge of \<open>chrome.storage.sync.set\<close>: the properties of \<open>b\<close>
  are assigned onto \<open>a\<close> one after the other.\<close>

fun assign :: "jsobject \<Rightarrow> jsobject \<Rightarrow> jsobject" where
  "assign a [] = a"
| "assign a ((k, v) # rest) = assign (put k v a) rest"

text \<open>Truthiness (\<open>!v\<close>, \<open>v || w\<close>, \<open>if (v)\<close>).\<close>

fun truthy :: "jsval \<Rightarrow> bool" where
  "truthy JUndefined = False"
| "truthy JNull = False"
| "truthy (JBool b) = b"
| "truthy (JNum n) = (n \<noteq> 0)"
| "truthy (JStr s) = (s \<noteq> [])"
| "truthy (JArr xs) = True"
| "truthy (JObj obj) = True"

text \<open>
  Reading one of the named properties the code reads (\<open>action\<close>, \<open>data\<close>, \<open>ready\<close>,
  \<open>type\<close>, \<open>name\<close>, \<open>headline\<close>, \<open>company\<close>, \<open>industry\<close>, ...) of a value: a
  \<open>TypeError\<close> on \<open>undefined\<close> and \<open>null\<close>, the property of an object, and \<open>undefined\<close> on
  a primitive or an array, which have no own property of these names. The left summand is
  the \<open>message\<close> of the error thrown.
\<close>

definition cannotRead :: "string \<Rightarrow> string \<Rightarrow> jsstring" where
  "cannotRead what key =
     js ''Cannot read properties of '' @ js what @ js '' (reading '' @ [0x27] @ js key
       @ [0x27] @ js '')''"

definition getMember :: "jsval \<Rightarrow> string \<Rightarrow> jsstring + jsval" where
  "getMember v key =
     (case v of
        JUndefined \<Rightarrow> Inl (cannotRead ''undefined'' key)
      | JNull \<Rightarrow> Inl (cannotRead ''null'' key)
      | JObj obj \<Rightarrow> Inr (field obj (js key))
      | _ \<Rightarrow> Inr JUndefined)"

text \<open>\<open>const { key } = v\<close>.\<close>

definition destructure :: "jsval \<Rightarrow> string \<Rightarrow> jsstring + jsval" where
  "destructure v key =
     (case v of
        JUndefined \<Rightarrow>
          Inl (js ''Cannot destructure property '' @ [0x27] @ js key @ [0x27] @ js '' of '' @ [0x27]
                @ js ''data'' @ [0x27] @ js '' as it is undefined.'')
      | JNull \<Rightarrow>
          Inl (js ''Cannot destructure property '' @ [0x27] @ js key @ [0x27] @ js '' of '' @ [0x27]
                @ js ''data'' @ [0x27] @ js '' as it is null.'')
      | JObj obj \<Rightarrow> Inr (field obj (js key))
      | _ \<Rightarrow> Inr JUndefined)"

text \<open>Optional chaining \<open>v?.key\<close>.\<close>

definition getMemberOpt :: "jsval \<Rightarrow> string \<Rightarrow> jsval" where
  "getMemberOpt v key = (case v of JObj obj \<Rightarrow> field obj (js key) | _ \<Rightarrow> JUndefined)"

text \<open>
  Decimal digits of a number, and \<open>String(v)\<close> as a template literal applies it. The
  numbers of the model are the integers, rendered digit by digit; the runtime renders an
  integer this way below \<open>1e21\<close> and in exponent form from there on, and has fractions
  too, which the model leaves out.
\<close>

fun digits :: "nat \<Rightarrow> nat \<Rightarrow> jsstring" where
  "digits 0 n = []"
| "digits (Suc fuel) n =
     (if n < 10 then [of_nat (48 + n)] else digits fuel (n div 10) @ [of_nat (48 + n mod 10)])"

definition decimal :: "int \<Rightarrow> jsstring" where
  "decimal i = (if i < 0 then js ''-'' @ digits (Suc (nat (- i))) (nat (- i))
                else digits (Suc (nat i)) (nat i))"

fun toString :: "jsval \<Rightarrow> jsstring" where
  "toString JUndefined = js ''undefined''"
| "toString JNull = js ''null''"
| "toString (JBool b) = (if b then js ''true'' else js ''false'')"
| "toString (JNum n) = decimal n"
| "toString (JStr s) = s"
| "toString (JArr xs) =
     join (js '','') (map (\<lambda>x. if x = JUndefined \<or> x = JNull then [] else toString x) xs)"
| "toString (JObj obj) = js ''[object Object]''"

text \<open>The two shapes of answer that every handler builds.\<close>

definition failure :: "jsstring \<Rightarrow> jsval" where
  "failure msg = JObj [(js ''success'', JBool False), (js ''error'', JStr msg)]"

definition success :: "jsobject \<Rightarrow> jsval" where
  "success props = JObj ((js ''success'', JBool True) # props)"

section \<open>The content script\<close>

subsection \<open>Profile page detection\<close>

text \<open>
  \<open>isProfilePage\<close> tests the address against
  \<^verbatim>\<open>/linkedin\.com\/in\/[\w-]+\/?(\?.*)?$/\<close>: somewhere in the address the literal
  \<open>linkedin.com/in/\<close>, then one or more of \<open>[A-Za-z0-9_-]\<close>, an optional \<open>/\<close>, an
  optional \<open>?\<close> followed by anything but line terminators, then the end of the input.
  Since neither \<open>/\<close> nor \<open>?\<close> is a slug character, the slug is the longest run.
\<close>

definition isSlugChar :: "jschar \<Rightarrow> bool" where
  "isSlugChar c \<longleftrightarrow>
     (0x61 \<le> c \<and> c \<le> 0x7A) \<or> (0x41 \<le> c \<and> c \<le> 0x5A) \<or> (0x30 \<le> c \<and> c \<le> 0x39)
     \<or> c = 0x5F \<or> c = 0x2D"

definition isLineTerminator :: "jschar \<Rightarrow> bool" where
  "isLineTerminator c \<longleftrightarrow> c \<in> {0x0A, 0x0D, 0x2028, 0x2029}"

definition matchSlugTail :: "jsstring \<Rightarrow> bool" where
  "matchSlugTail r =
     (let slug = takeWhile isSlugChar r;
          r1 = dropWhile isSlugChar r;
          r2 = (case r1 of [] \<Rightarrow> [] | c # cs \<Rightarrow> if c = 0x2F then cs else r1)
      in slug \<noteq> [] \<and>
         (case r2 of [] \<Rightarrow> True | c # cs \<Rightarrow> c = 0x3F \<and> list_all (\<lambda>x. \<not> isLineTerminator x) cs))"

fun profilePattern_test :: "jsstring \<Rightarrow> bool" where
  "profilePattern_test [] = False"
| "profilePattern_test (c # cs) =
     ((startsWith (c # cs) (js ''linkedin.com/in/'') \<and> matchSlugTail (drop 16 (c # cs)))
      \<or> profilePattern_test cs)"

definition isProfilePage :: "page \<Rightarrow> bool" where
  "isProfilePage d \<longleftrightarrow>
     profilePattern_test (href d)
     \<and> (querySelector d (js ''h1.text-heading-xlarge'') \<noteq> None
        \<or> querySelector d (js ''.pv-text-details__left-panel h1'') \<noteq> None
        \<or> querySelector d (js ''.ph5 h1'') \<noteq> None)"

subsection \<open>Profile data\<close>

definition extractProfileData :: "(jsstring \<Rightarrow> jsstring) \<Rightarrow> page \<Rightarrow> jsval" where
  "extractProfileData toLowerCase d =
     JObj [(js ''name'', JStr (extractName d)),
           (js ''headline'', JStr (extractHeadline d)),
           (js ''company'', JStr (extractCompany d)),
           (js ''location'', JStr (extractLocation d)),
           (js ''about'', JStr (extractAbout d)),
           (js ''experience'', JStr (extractExperience d)),
           (js ''industry'', JStr (extractIndustry toLowerCase d))]"

text \<open>
  \<open>getProfileDataForMessage\<close>. The extractors cannot throw, so the \<open>catch\<close> branch of the
  source is never taken.
\<close>

definition getProfileDataForMessage :: "(jsstring \<Rightarrow> jsstring) \<Rightarrow> page \<Rightarrow> jsval" where
  "getProfileDataForMessage toLowerCase d =
     (if \<not> isProfilePage d then failure (js ''Not a LinkedIn profile page'')
      else success [(js ''profileData'', extractProfileData toLowerCase d)])"

subsection \<open>State and message listener\<close>

text \<open>
  The script's globals: \<open>isContentScriptReady\<close>, \<open>window.linkedinAssistant\<close> (an instance
  with its \<open>settings\<close>, or absent) and the debugging flag \<open>window.linkedInAssistantLoaded\<close>.
  The constructor sets \<open>settings = {}\<close>; its asynchronous \<open>loadSettings\<close> replaces them
  later, in an event of its own (\<open>loadSettings_resolved\<close>).
\<close>

record assistant =
  settings :: jsval

record content_state =
  isContentScriptReady :: bool
  linkedinAssistant :: "assistant option"
  linkedInAssistantLoaded :: bool

definition initializeContentScript :: "content_state \<Rightarrow> content_state" where
  "initializeContentScript st =
     (if isContentScriptReady st then st
      else st\<lparr>linkedinAssistant := Some \<lparr>settings = JObj []\<rparr>,
              isContentScriptReady := True,
              linkedInAssistantLoaded := True\<rparr>)"

definition loadSettings_resolved :: "jsobject \<Rightarrow> content_state \<Rightarrow> content_state" where
  "loadSettings_resolved result st =
     (case linkedinAssistant st of
        None \<Rightarrow> st
      | Some a \<Rightarrow> st\<lparr>linkedinAssistant := Some (a\<lparr>settings := JObj result\<rparr>)\<rparr>)"

text \<open>
  The \<open>chrome.runtime.onMessage\<close> listener of the content script. The result is the list of
  the values passed to \<open>sendResponse\<close>, in order, and the state afterwards.
\<close>

definition content_onMessage ::
  "(jsstring \<Rightarrow> jsstring) \<Rightarrow> page \<Rightarrow> jsobject \<Rightarrow> content_state \<Rightarrow> jsval list \<times> content_state"
where
  "content_onMessage toLowerCase d request st =
     (if field request (js ''action'') = JStr (js ''ping'')
      then ([JObj [(js ''ready'', JBool (isContentScriptReady st))]], st)
      else
        let st1 = (if \<not> isContentScriptReady st then initializeContentScript st else st) in
        case linkedinAssistant st1 of
          None \<Rightarrow> ([failure (js ''Assistant not initialized'')], st1)
        | Some a \<Rightarrow>
            if field request (js ''action'') = JStr (js ''getProfileData'')
            then ([getProfileDataForMessage toLowerCase d], st1)
            else if field request (js ''action'') = JStr (js ''settingsUpdated'')
            then ([success []],
                  st1\<lparr>linkedinAssistant := Some (a\<lparr>settings := field request (js ''data'')\<rparr>)\<rparr>)
            else ([failure (js ''Unknown action'')], st1))"

section \<open>The settings store\<close>

text \<open>
  \<open>chrome.storage.sync\<close>: the stored document, and whether the store rejects its reads
  and its writes (with the message of the rejection). \<open>get()\<close> returns the whole document,
  \<open>get(keys)\<close> the properties named, and \<open>set(items)\<close> assigns the items over the document.
\<close>

record storage =
  items :: jsobject
  get_fails :: "jsstring option"
  set_fails :: "jsstring option"

definition storage_get :: "storage \<Rightarrow> jsstring + jsobject" where
  "storage_get st = (case get_fails st of Some m \<Rightarrow> Inl m | None \<Rightarrow> Inr (items st))"

definition storage_get_keys :: "jsstring list \<Rightarrow> storage \<Rightarrow> jsstring + jsobject" where
  "storage_get_keys keys st =
     (case get_fails st of
        Some m \<Rightarrow> Inl m
      | None \<Rightarrow> Inr (filter (\<lambda>(k, v). k \<in> set keys) (items st)))"

definition storage_set :: "jsobject \<Rightarrow> storage \<Rightarrow> jsstring + storage" where
  "storage_set new st =
     (case set_fails st of
        Some m \<Rightarrow> Inl m
      | None \<Rightarrow> Inr (st\<lparr>items := assign (items st) new\<rparr>))"

section \<open>The background manager\<close>

text \<open>
  Every \<open>new Date().toISOString()\<close> of a handler is the parameter \<open>now\<close>. A left summand
  is a rejected promise, with the message of its error.
\<close>

definition defaultSettings :: "jsstring \<Rightarrow> jsobject" where
  "defaultSettings now =
     [(js ''userContext'', JStr []),
      (js ''userRole'', JStr []),
      (js ''settings'', JObj [(js ''messageLength'', JStr (js ''medium'')),
                             (js ''tone'', JStr (js ''professional'')),
                             (js ''autoGenerate'', JBool False)]),
      (js ''statistics'', JObj [(js ''messagesGenerated'', JNum 0),
                               (js ''extensionInstalled'', JStr now)])]"

definition setDefaultSettings :: "jsstring \<Rightarrow> storage \<Rightarrow> jsstring + storage" where
  "setDefaultSettings now st = storage_set (defaultSettings now) st"

definition handleUpdate :: "jsstring \<Rightarrow> jsstring \<Rightarrow> storage \<Rightarrow> jsstring + storage" where
  "handleUpdate previousVersion now st =
     (case storage_get st of
        Inl m \<Rightarrow> Inl m
      | Inr currentSettings \<Rightarrow>
          if \<not> truthy (field currentSettings (js ''statistics''))
          then storage_set
                 (put (js ''statistics'')
                    (JObj [(js ''messagesGenerated'', JNum 0), (js ''extensionUpdated'', JStr now)])
                    currentSettings)
                 st
          else Inr st)"

text \<open>
  \<open>handleInstallation\<close>, as far as the store goes (on \<open>install\<close> it also opens the popup
  page in a tab). Its \<open>catch\<close> logs the error and leaves the store as it is.
\<close>

definition handleInstallation :: "jsstring \<Rightarrow> jsstring \<Rightarrow> jsstring \<Rightarrow> storage \<Rightarrow> storage" where
  "handleInstallation reason previousVersion now st =
     (if reason = js ''install''
      then (case setDefaultSettings now st of Inl m \<Rightarrow> st | Inr st' \<Rightarrow> st')
      else if reason = js ''update''
      then (case handleUpdate previousVersion now st of Inl m \<Rightarrow> st | Inr st' \<Rightarrow> st')
      else st)"

definition verifySettings :: "jsstring \<Rightarrow> storage \<Rightarrow> jsstring + storage" where
  "verifySettings now st =
     (case storage_get st of
        Inl m \<Rightarrow> setDefaultSettings now st
      | Inr current \<Rightarrow>
          if \<not> truthy (field current (js ''settings''))
          then (case setDefaultSettings now st of
                  Inl m \<Rightarrow> setDefaultSettings now st
                | Inr st' \<Rightarrow> Inr st')
          else Inr st)"

definition handleStartup :: "jsstring \<Rightarrow> storage \<Rightarrow> storage" where
  "handleStartup now st = (case verifySettings now st of Inl m \<Rightarrow> st | Inr st' \<Rightarrow> st')"

definition getSettings :: "storage \<Rightarrow> jsstring + jsobject" where
  "getSettings st = storage_get st"

text \<open>
  The own enumerable properties that \<open>{...v}\<close> copies, in the order of the indices or of
  insertion. The runtime enumerates the integer-like keys of an object first, in
  ascending order, so the order of the keys after a merge may differ from the model's;
  the reads of the model go by key, not by position.
\<close>

definition indexed :: "jsval list \<Rightarrow> jsobject" where
  "indexed xs = map (\<lambda>(i, x). (decimal (int i), x)) (enumerate 0 xs)"

definition spread :: "jsval \<Rightarrow> jsobject" where
  "spread v =
     (case v of
        JObj obj \<Rightarrow> obj
      | JArr xs \<Rightarrow> indexed xs
      | JStr s \<Rightarrow> indexed (map (\<lambda>c. JStr [c]) s)
      | _ \<Rightarrow> [])"

definition saveSettings :: "jsval \<Rightarrow> storage \<Rightarrow> jsstring + storage" where
  "saveSettings newSettings st =
     (case storage_get st of
        Inl m \<Rightarrow> Inl m
      | Inr currentSettings \<Rightarrow> storage_set (assign currentSettings (spread newSettings)) st)"

definition generateMessage :: "jsval \<Rightarrow> jsval \<Rightarrow> jsstring" where
  "generateMessage profileData userContext = js ''Message generation handled by content script''"

text \<open>\<open>(v || 0) + 1\<close>: a sum of numbers, or a concatenation when \<open>v\<close> is not primitive
  or is a string. The sum is exact, as it is for the runtime's doubles below \<open>2 ^ 53\<close>;
  above, the runtime rounds.\<close>

definition orZeroPlusOne :: "jsval \<Rightarrow> jsval" where
  "orZeroPlusOne v =
     (if \<not> truthy v then JNum 1
      else case v of
        JNum n \<Rightarrow> JNum (n + 1)
      | JBool b \<Rightarrow> JNum 2
      | _ \<Rightarrow> JStr (toString v @ js ''1''))"

text \<open>
  \<open>logActivity\<close> never throws: its body is one \<open>try\<close> whose \<open>catch\<close> logs. Class bodies
  are strict code, so assigning a property of a primitive \<open>stats\<close> is a \<open>TypeError\<close>; the
  properties assigned to an array \<open>stats\<close> are not array elements and are lost when the
  store serialises it.
\<close>

definition logActivity :: "jsval \<Rightarrow> jsstring \<Rightarrow> storage \<Rightarrow> storage" where
  "logActivity activityData now st =
     (case storage_get_keys [js ''statistics''] st of
        Inl m \<Rightarrow> st
      | Inr currentStats \<Rightarrow>
          let stats = (if truthy (field currentStats (js ''statistics''))
                       then field currentStats (js ''statistics'') else JObj []) in
          case getMember activityData ''type'' of
            Inl m \<Rightarrow> st
          | Inr ty \<Rightarrow>
              if ty = JStr (js ''messageGenerated'')
              then (case stats of
                      JObj obj \<Rightarrow>
                        (case storage_set
                            [(js ''statistics'',
                              JObj (put (js ''lastMessageGenerated'') (JStr now)
                                     (put (js ''messagesGenerated'')
                                        (orZeroPlusOne (field obj (js ''messagesGenerated''))) obj)))]
                            st of
                           Inl m \<Rightarrow> st | Inr st' \<Rightarrow> st')
                    | JArr xs \<Rightarrow>
                        (case storage_set [(js ''statistics'', JArr xs)] st of
                           Inl m \<Rightarrow> st | Inr st' \<Rightarrow> st')
                    | _ \<Rightarrow> st)
              else (case storage_set [(js ''statistics'', stats)] st of
                      Inl m \<Rightarrow> st | Inr st' \<Rightarrow> st'))"

text \<open>
  \<open>BackgroundManager.handleMessage\<close>: the values passed to \<open>sendResponse\<close>, in order, and
  the store afterwards. \<open>generateGeminiMessage\<close> is left to the top-level listener.
\<close>

definition handleMessage :: "jsobject \<Rightarrow> jsstring \<Rightarrow> storage \<Rightarrow> jsval list \<times> storage" where
  "handleMessage request now st =
     (let action = field request (js ''action'') in
      if action = JStr (js ''getSettings'')
      then (case getSettings st of
              Inl m \<Rightarrow> ([failure m], st)
            | Inr s \<Rightarrow> ([success [(js ''data'', JObj s)]], st))
      else if action = JStr (js ''saveSettings'')
      then (case saveSettings (field request (js ''data'')) st of
              Inl m \<Rightarrow> ([failure m], st)
            | Inr st' \<Rightarrow> ([success []], st'))
      else if action = JStr (js ''generateMessage'')
      then ([success [(js ''message'',
               JStr (generateMessage (field request (js ''profileData''))
                       (field request (js ''userContext''))))]], st)
      else if action = JStr (js ''logActivity'')
      then ([success []], logActivity (field request (js ''data'')) now st)
      else if action = JStr (js ''generateGeminiMessage'')
      then ([], st)
      else ([failure (js ''Unknown action'')], st))"

section \<open>The generation client\<close>

subsection \<open>Prompt construction\<close>

definition nl :: jsstring where
  "nl = [0x0A]"

text \<open>The bullet U+2022 followed by a space, and the dash U+2013.\<close>

definition bullet :: jsstring where
  "bullet = [0x2022, 0x20]"

definition ndash :: jsstring where
  "ndash = [0x2013]"

definition apostrophe :: jsstring where
  "apostrophe = [0x27]"

text \<open>The template literal of \<open>createPrompt\<close>, with its four holes.\<close>

definition promptTemplate :: "jsstring \<Rightarrow> jsstring \<Rightarrow> jsstring \<Rightarrow> jsstring \<Rightarrow> jsstring" where
  "promptTemplate firstName headline company industry =
     nl @ js ''Write ONE LinkedIn connection message that follows ALL rules:'' @ nl
     @ nl
     @ bullet @ js ''Must be 295-300 characters total (hard cap). Count spaces & punctuation.'' @ nl
     @ bullet @ js ''Start with \"Hi '' @ firstName @ js '',\" using their first name.'' @ nl
     @ bullet @ js ''Mention ONE specific fact about their work, company, or field (headline: ''
       @ headline @ js ''; company: '' @ company @ js ''; industry: '' @ industry @ js '').'' @ nl
     @ bullet @ js ''Introduce yourself briefly: you are a computer-science graduate and full-stack developer (phrase it naturally, no tech buzzword list).'' @ nl
     @ bullet @ js ''State you are currently exploring opportunities and open to hearing about relevant roles.'' @ nl
     @ bullet @ js ''Offer to share your resume if helpful.'' @ nl
     @ bullet @ js ''Use plain, respectful English '' @ ndash
       @ js '' no slang, hype, buzzwords, or job-begging phrases (e.g., don'' @ apostrophe
       @ js ''t say \"open to work\").'' @ nl
     @ bullet @ js ''Keep the tone clean, casual, raw, and real '' @ ndash
       @ js '' avoid flattery or compliments like \"impressed by your work\".'' @ nl
     @ bullet @ js ''End with a brief close like \"Let me know.\", \"Would be glad to connect.\", or \"Happy to connect if that works for you.\" Pick any ONE.'' @ nl
     @ bullet @ js ''Aim for natural variety; do not repeat exact sentences each time.'' @ nl
     @ nl
     @ js ''Return ONLY the single message text (no extra words).'' @ nl"

text \<open>
  \<open>createPrompt(profileData)\<close>. Reading \<open>profileData.name\<close> throws on \<open>undefined\<close> and
  \<open>null\<close>; a truthy name that is not a string has no \<open>split\<close>. The wording of such
  engine errors is V8's.
\<close>

definition createPrompt :: "jsval \<Rightarrow> jsstring + jsstring" where
  "createPrompt profileData =
     (case getMember profileData ''name'' of
        Inl m \<Rightarrow> Inl m
      | Inr name \<Rightarrow>
          (case (if truthy name then name else JStr (js ''there'')) of
             JStr s \<Rightarrow>
               Inr (promptTemplate (split_space_first s)
                      (toString (getMemberOpt profileData ''headline''))
                      (toString (getMemberOpt profileData ''company''))
                      (toString (getMemberOpt profileData ''industry'')))
           | _ \<Rightarrow> Inl (js ''(profileData.name || \"there\").split is not a function'')))"

subsection \<open>The API call\<close>

text \<open>
  The response body as far as the code reads it; each field may be absent, and is of the
  JSON type the API documents when it is present.
\<close>

record gm_part =
  part_text :: "jsstring option"

record gm_content =
  parts :: "gm_part list option"

record gm_candidate =
  content :: "gm_content option"

record gm_feedback =
  blockReason :: "jsstring option"

record gm_response =
  candidates :: "gm_candidate list option"
  promptFeedback :: "gm_feedback option"

text \<open>The error body of a failed request: \<open>errorBody.error?.message\<close>.\<close>

record gm_error_body =
  error_message :: "jsstring option"

text \<open>
  What \<open>fetch\<close> does: it rejects (network error), or resolves to a response that is not
  \<open>ok\<close> (with its \<open>statusText\<close>) or is \<open>ok\<close>; \<open>response.json()\<close> then rejects on a
  malformed body (left summand) or yields the body.
\<close>

datatype fetch_outcome =
    NetworkError jsstring
  | HttpError jsstring "jsstring + gm_error_body"
  | HttpOk "jsstring + gm_response"

definition apiUrl :: "jsstring \<Rightarrow> jsstring" where
  "apiUrl apiKey =
     js ''https://generativelanguage.googleapis.com/v1beta/models/gemini-1.5-flash-latest:generateContent?key=''
       @ apiKey"

text \<open>\<open>responseData.candidates[0].content.parts[0].text\<close>, then \<open>message.trim()\<close>.\<close>

definition candidateText :: "gm_candidate \<Rightarrow> jsstring + jsstring" where
  "candidateText c =
     (case content c of
        None \<Rightarrow> Inl (cannotRead ''undefined'' ''parts'')
      | Some co \<Rightarrow>
          (case parts co of
             None \<Rightarrow> Inl (cannotRead ''undefined'' ''0'')
           | Some [] \<Rightarrow> Inl (cannotRead ''undefined'' ''text'')
           | Some (p # ps) \<Rightarrow>
               (case part_text p of
                  None \<Rightarrow> Inl (cannotRead ''undefined'' ''trim'')
                | Some message \<Rightarrow> Inr (trim message))))"

text \<open>The three-way branch on the body of an \<open>ok\<close> response, and its two error texts.\<close>

definition blockedMessage :: "jsstring \<Rightarrow> jsstring" where
  "blockedMessage reason =
     js ''Message generation failed because the prompt was blocked. Reason: '' @ reason"

definition emptyMessage :: jsstring where
  "emptyMessage = js ''Message generation failed. The API returned an empty response.''"

definition handleResponseData :: "gm_response \<Rightarrow> jsval" where
  "handleResponseData responseData =
     (case candidates responseData of
        Some (c # cs) \<Rightarrow>
          (case candidateText c of
             Inl m \<Rightarrow> failure m
           | Inr message \<Rightarrow> success [(js ''message'', JStr message)])
      | _ \<Rightarrow>
          (case promptFeedback responseData of
             Some fb \<Rightarrow>
               (case blockReason fb of
                  Some reason \<Rightarrow>
                    if reason \<noteq> [] then failure (blockedMessage reason)
                    else failure emptyMessage
                | None \<Rightarrow> failure emptyMessage)
           | None \<Rightarrow> failure emptyMessage))"

text \<open>
  \<open>handleGenerateMessage(data)\<close>, given the key that \<open>loadApiKey\<close> returned (\<open>None\<close> for
  \<open>null\<close>) and the network as a function of the address and the prompt sent. The prompt
  is built outside the \<open>try\<close>, so an error of \<open>createPrompt\<close> rejects the promise.
\<close>

definition handleGenerateMessage ::
  "jsstring option \<Rightarrow> (jsstring \<Rightarrow> jsstring \<Rightarrow> fetch_outcome) \<Rightarrow> jsval \<Rightarrow> jsstring + jsval"
where
  "handleGenerateMessage loadedKey fetch data =
     (case loadedKey of
        None \<Rightarrow> Inr (failure (js ''API Key not loaded. Please check your .env file and reload the extension.''))
      | Some apiKey \<Rightarrow>
          if apiKey = []
          then Inr (failure (js ''API Key not loaded. Please check your .env file and reload the extension.''))
          else
            case destructure data ''profileData'' of
              Inl m \<Rightarrow> Inl m
            | Inr profileData \<Rightarrow>
                (case createPrompt profileData of
                   Inl m \<Rightarrow> Inl m
                 | Inr prompt \<Rightarrow>
                     (case fetch (apiUrl apiKey) prompt of
                        NetworkError m \<Rightarrow> Inr (failure m)
                      | HttpError statusText body \<Rightarrow>
                          (case body of
                             Inl m \<Rightarrow> Inr (failure m)
                           | Inr errorBody \<Rightarrow>
                               Inr (failure (js ''Google Gemini API error: '' @
                                 (case error_message errorBody of
                                    None \<Rightarrow> statusText
                                  | Some m \<Rightarrow> if m \<noteq> [] then m else statusText))))
                      | HttpOk body \<Rightarrow>
                          (case body of
                             Inl m \<Rightarrow> Inr (failure m)
                           | Inr responseData \<Rightarrow> Inr (handleResponseData responseData)))))"

text \<open>
  The top-level listener of the background script answers \<open>generateGeminiMessage\<close> only:
  with the result of \<open>handleGenerateMessage\<close>, or with the message of its rejection.
\<close>

definition background_onMessage ::
  "jsstring option \<Rightarrow> (jsstring \<Rightarrow> jsstring \<Rightarrow> fetch_outcome) \<Rightarrow> jsobject \<Rightarrow> jsval list"
where
  "background_onMessage loadedKey fetch request =
     (if field request (js ''action'') = JStr (js ''generateGeminiMessage'')
      then (case handleGenerateMessage loadedKey fetch (field request (js ''data'')) of
              Inl m \<Rightarrow> [failure m]
            | Inr response \<Rightarrow> [response])
      else [])"

section \<open>The messaging bridge\<close>

text \<open>
  The browser, as the bridge sees it: three calls, each of which rejects (left summand,
  the message of the error) or resolves, and moves the world \<open>'w\<close> on. A tab object may
  lack its \<open>url\<close>. A message that nobody answers resolves to \<open>undefined\<close>.
\<close>

record tab =
  url :: "jsstring option"

record 'w chrome_api =
  tabs_get :: "nat \<Rightarrow> 'w \<Rightarrow> (jsstring + tab option) \<times> 'w"
  tabs_sendMessage :: "nat \<Rightarrow> jsval \<Rightarrow> 'w \<Rightarrow> (jsstring + jsval) \<times> 'w"
  scripting_executeScript :: "nat \<Rightarrow> 'w \<Rightarrow> (jsstring + unit) \<times> 'w"

text \<open>
  What the bridge did, in order: \<open>chrome.tabs.get(tabId)\<close>; the liveness probe
  \<open>chrome.tabs.sendMessage(tabId, {action: 'ping'})\<close>; a delivery
  \<open>chrome.tabs.sendMessage(tabId, message)\<close> of the caller's message; the installation
  \<open>chrome.scripting.executeScript\<close> of \<open>content.js\<close> into the tab; a \<open>setTimeout\<close> wait
  of so many milliseconds.
\<close>

datatype bridge_event =
    TabsGet nat
  | Probe nat
  | Deliver nat jsval
  | ExecuteScript nat
  | Wait nat

definition ping :: jsval where
  "ping = JObj [(js ''action'', JStr (js ''ping''))]"

definition injectionFailed :: jsval where
  "injectionFailed = failure (js ''Failed to inject content script. Please refresh the page.'')"

text \<open>The second \<open>try\<close> block of \<open>sendMessageToTab\<close>: inject, wait, send.\<close>

definition injectAndSend ::
  "'w chrome_api \<Rightarrow> nat \<Rightarrow> jsval \<Rightarrow> 'w \<Rightarrow> jsval \<times> bridge_event list \<times> 'w"
where
  "injectAndSend api tabId message w =
     (case scripting_executeScript api tabId w of
        (Inl m, w1) \<Rightarrow> (injectionFailed, [ExecuteScript tabId], w1)
      | (Inr u, w1) \<Rightarrow>
          (case tabs_sendMessage api tabId message w1 of
             (Inl m, w2) \<Rightarrow>
               (injectionFailed, [ExecuteScript tabId, Wait 1500, Deliver tabId message], w2)
           | (Inr response, w2) \<Rightarrow>
               (response, [ExecuteScript tabId, Wait 1500, Deliver tabId message], w2)))"

definition after :: "bridge_event list \<Rightarrow> jsval \<times> bridge_event list \<times> 'w \<Rightarrow> jsval \<times> bridge_event list \<times> 'w"
where
  "after done r = (case r of (response, events, w) \<Rightarrow> (response, done @ events, w))"

text \<open>
  \<open>sendMessageToTab(tabId, message)\<close>: the value returned, the calls made, the world
  afterwards. The delivery to a ready script is inside the \<open>try\<close> of the probe, so its
  rejection is caught there too and falls through to the injection.
\<close>

definition sendMessageToTab ::
  "'w chrome_api \<Rightarrow> nat \<Rightarrow> jsval \<Rightarrow> 'w \<Rightarrow> jsval \<times> bridge_event list \<times> 'w"
where
  "sendMessageToTab api tabId message w =
     (case tabs_get api tabId w of
        (Inl m, w1) \<Rightarrow> (failure m, [TabsGet tabId], w1)
      | (Inr None, w1) \<Rightarrow>
          (failure (js ''Tab not accessible or not on LinkedIn''), [TabsGet tabId], w1)
      | (Inr (Some t), w1) \<Rightarrow>
          (case url t of
             None \<Rightarrow> (failure (cannotRead ''undefined'' ''includes''), [TabsGet tabId], w1)
           | Some u \<Rightarrow>
               if \<not> str_includes u (js ''linkedin.com'')
               then (failure (js ''Tab not accessible or not on LinkedIn''), [TabsGet tabId], w1)
               else
                 (case tabs_sendMessage api tabId ping w1 of
                    (Inl m, w2) \<Rightarrow>
                      after [TabsGet tabId, Probe tabId]
                        (injectAndSend api tabId message w2)
                  | (Inr pingResponse, w2) \<Rightarrow>
                      if truthy (getMemberOpt pingResponse ''ready'')
                      then
                        (case tabs_sendMessage api tabId message w2 of
                           (Inr response, w3) \<Rightarrow>
                             (response,
                              [TabsGet tabId, Probe tabId, Deliver tabId message], w3)
                         | (Inl m, w3) \<Rightarrow>
                             after [TabsGet tabId, Probe tabId, Deliver tabId message]
                               (injectAndSend api tabId message w3))
                      else
                        after [TabsGet tabId, Probe tabId]
                          (injectAndSend api tabId message w2))))"

text \<open>
  The delivery of \<open>getProfileData\<close> in \<open>PopupManager.handleGenerateMessage\<close>: the response
  (left summand: the message of the error thrown on), the calls made, the world afterwards.
\<close>

definition getProfileDataMessage :: jsval where
  "getProfileDataMessage = JObj [(js ''action'', JStr (js ''getProfileData''))]"

definition connectionFailed :: jsstring where
  "connectionFailed =
     js ''Connection failed even after injecting content script. Please refresh the LinkedIn page.''"

definition popup_getProfileData ::
  "'w chrome_api \<Rightarrow> nat \<Rightarrow> 'w \<Rightarrow> (jsstring + jsval) \<times> bridge_event list \<times> 'w"
where
  "popup_getProfileData api tabId w =
     (case tabs_sendMessage api tabId getProfileDataMessage w of
        (Inr profileResponse, w1) \<Rightarrow>
          (Inr profileResponse, [Deliver tabId getProfileDataMessage], w1)
      | (Inl m, w1) \<Rightarrow>
          if str_includes m (js ''Receiving end does not exist'')
          then
            (case scripting_executeScript api tabId w1 of
               (Inl m', w2) \<Rightarrow>
                 (Inl connectionFailed,
                  [Deliver tabId getProfileDataMessage, ExecuteScript tabId], w2)
             | (Inr u, w2) \<Rightarrow>
                 (case tabs_sendMessage api tabId getProfileDataMessage w2 of
                    (Inl m', w3) \<Rightarrow>
                      (Inl connectionFailed,
                       [Deliver tabId getProfileDataMessage, ExecuteScript tabId, Wait 2000,
                        Deliver tabId getProfileDataMessage], w3)
                  | (Inr profileResponse, w3) \<Rightarrow>
                      (Inr profileResponse,
                       [Deliver tabId getProfileDataMessage, ExecuteScript tabId, Wait 2000,
                        Deliver tabId getProfileDataMessage], w3)))
          else (Inl m, [Deliver tabId getProfileDataMessage], w1))"

section \<open>Vocabulary of the specification\<close>

text \<open>
  A locator (selector) of a list \<^emph>\<open>has text\<close> on a page when its first matched element has
  non-empty trimmed text. \<open>firstMatch\<close>: the given selector is the first one of the ordered
  list that has text, and \<open>textContent\<close> is the text of its element. \<open>noMatch\<close>: no
  selector of the list has text.
\<close>

definition hasText :: "page \<Rightarrow> jsstring \<Rightarrow> bool" where
  "hasText d selector =
     (case querySelector d selector of
        None \<Rightarrow> False
      | Some textContent \<Rightarrow> trim textContent \<noteq> [])"

definition firstMatch :: "page \<Rightarrow> jsstring list \<Rightarrow> jsstring \<Rightarrow> jsstring \<Rightarrow> bool" where
  "firstMatch d selectors selector textContent \<longleftrightarrow>
     (\<exists>pre post. selectors = pre @ selector # post \<and> (\<forall>s\<in>set pre. \<not> hasText d s))
     \<and> querySelector d selector = Some textContent \<and> trim textContent \<noteq> []"

definition noMatch :: "page \<Rightarrow> jsstring list \<Rightarrow> bool" where
  "noMatch d selectors \<longleftrightarrow> (\<forall>s\<in>set selectors. \<not> hasText d s)"

text \<open>A keyword occurs in a text: the text is some prefix, the keyword, some rest.\<close>

definition occurs_in :: "jsstring \<Rightarrow> jsstring \<Rightarrow> bool" where
  "occurs_in keyword text \<longleftrightarrow> (\<exists>p r. text = p @ keyword @ r)"

text \<open>
  A response \<^emph>\<open>contains a boolean success field\<close>; the invariant of the content script's
  globals (a ready script has its assistant); and the script's state before it has run.
\<close>

definition hasSuccessField :: "jsval \<Rightarrow> bool" where
  "hasSuccessField r =
     (case r of
        JObj obj \<Rightarrow> (case map_of obj (js ''success'') of Some (JBool b) \<Rightarrow> True | _ \<Rightarrow> False)
      | _ \<Rightarrow> False)"

definition content_invariant :: "content_state \<Rightarrow> bool" where
  "content_invariant st \<longleftrightarrow> (isContentScriptReady st \<longrightarrow> linkedinAssistant st \<noteq> None)"

definition fresh_content :: content_state where
  "fresh_content =
     \<lparr>isContentScriptReady = False, linkedinAssistant = None, linkedInAssistantLoaded = False\<rparr>"

text \<open>
  A response body has no candidate (the list is absent or empty), and it has no block
  reason (no prompt feedback, or feedback whose reason is absent or empty).
\<close>

definition noCandidates :: "gm_response \<Rightarrow> bool" where
  "noCandidates r \<longleftrightarrow> candidates r = None \<or> candidates r = Some []"

definition noBlockReason :: "gm_response \<Rightarrow> bool" where
  "noBlockReason r \<longleftrightarrow>
     (case promptFeedback r of
        None \<Rightarrow> True
      | Some fb \<Rightarrow> blockReason fb = None \<or> blockReason fb = Some [])"

text \<open>
  Counting what the bridge did: installation attempts, deliveries of the caller's message,
  probes. A probe is \<^emph>\<open>answered ready\<close> when it resolves to a value whose \<open>ready\<close> is
  truthy; a tab \<^emph>\<open>never answers\<close> the probe when it does so in no world; and the bridge
  probes a tab at all only when \<open>chrome.tabs.get\<close> yields a tab whose address contains
  \<open>linkedin.com\<close>.
\<close>

definition isInstall :: "bridge_event \<Rightarrow> bool" where
  "isInstall e = (case e of ExecuteScript tabId \<Rightarrow> True | _ \<Rightarrow> False)"

definition isDelivery :: "bridge_event \<Rightarrow> bool" where
  "isDelivery e = (case e of Deliver tabId message \<Rightarrow> True | _ \<Rightarrow> False)"

definition isProbe :: "bridge_event \<Rightarrow> bool" where
  "isProbe e = (case e of Probe tabId \<Rightarrow> True | _ \<Rightarrow> False)"

definition installs :: "bridge_event list \<Rightarrow> nat" where
  "installs events = length (filter isInstall events)"

definition deliveries :: "bridge_event list \<Rightarrow> nat" where
  "deliveries events = length (filter isDelivery events)"

definition probes :: "bridge_event list \<Rightarrow> nat" where
  "probes events = length (filter isProbe events)"

definition answersReady :: "jsstring + jsval \<Rightarrow> bool" where
  "answersReady outcome =
     (case outcome of Inl m \<Rightarrow> False | Inr pingResponse \<Rightarrow> truthy (getMemberOpt pingResponse ''ready''))"

definition probeUnanswered :: "'w chrome_api \<Rightarrow> nat \<Rightarrow> bool" where
  "probeUnanswered api tabId \<longleftrightarrow> (\<forall>w. \<not> answersReady (fst (tabs_sendMessage api tabId ping w)))"

definition onLinkedIn :: "'w chrome_api \<Rightarrow> nat \<Rightarrow> 'w \<Rightarrow> bool" where
  "onLinkedIn api tabId w =
     (case fst (tabs_get api tabId w) of
        Inr (Some t) \<Rightarrow>
          (case url t of None \<Rightarrow> False | Some u \<Rightarrow> str_includes u (js ''linkedin.com''))
      | _ \<Rightarrow> False)"

text \<open>The statistics section that the version-update migration adds.\<close>

definition statisticsDefault :: "jsstring \<Rightarrow> jsval" where
  "statisticsDefault now =
     JObj [(js ''messagesGenerated'', JNum 0), (js ''extensionUpdated'', JStr now)]"

section \<open>Example pages\<close>

definition blank_page :: page where
  "blank_page =
     \<lparr>href = js ''https://www.linkedin.com/feed/'', querySelectorAll = (\<lambda>selector. [])\<rparr>"

definition ada_page :: page where
  "ada_page =
     \<lparr>href = js ''https://www.linkedin.com/in/ada-lovelace/'',
      querySelectorAll = (\<lambda>selector.
        if selector = js ''h1.text-heading-xlarge'' then [js ''   '']
        else if selector = js ''.pv-text-details__left-panel h1'' then [js '' Ada Lovelace '']
        else if selector = js ''.ph5 h1'' then [js ''Ada L.'']
        else if selector = js ''.text-body-medium.break-words'' then [js ''Engineer'']
        else if selector = js ''.ph5 .pv-entity__secondary-title'' then [js ''Analytical Engines'']
        else if selector = js ''.text-body-small.inline.t-black--light'' then [js ''London'']
        else if selector = js ''.pv-about__summary-text .break-words''
          then [js '' Builds compilers '']
        else if selector = js ''.experience-section .pv-entity__summary-info''
          then [js '' '', js '''']
        else if selector = js ''[data-field=\"experience\"] .pv-entity__summary-info''
          then [js ''Engineer at Initech'']
        else [])\<rparr>"

text \<open>An example of the runtime's lower-casing, for texts in ASCII.\<close>

definition asciiLower :: "jsstring \<Rightarrow> jsstring" where
  "asciiLower s = map (\<lambda>c. if 0x41 \<le> c \<and> c \<le> 0x5A then c + 0x20 else c) s"

section \<open>Example store and network\<close>

definition empty_store :: storage where
  "empty_store = \<lparr>items = [], get_fails = None, set_fails = None\<rparr>"

definition offline :: "jsstring \<Rightarrow> jsstring \<Rightarrow> fetch_outcome" where
  "offline address prompt = NetworkError (js ''Failed to fetch'')"

definition saved_store :: storage where
  "saved_store =
     \<lparr>items = [(js ''userContext'', JStr (js ''CS grad'')), (js ''theme'', JStr (js ''dark''))],
      get_fails = None, set_fails = None\<rparr>"

definition cleared_store :: storage where
  "cleared_store =
     \<lparr>items = [(js ''userContext'', JStr (js ''CS grad'')), (js ''statistics'', JNull)],
      get_fails = None, set_fails = None\<rparr>"

section \<open>Example requests and responses of the generation client\<close>

definition safety_response :: gm_response where
  "safety_response = \<lparr>candidates = None,
     promptFeedback = Some \<lparr>blockReason = Some (js ''SAFETY'')\<rparr>\<rparr>"

definition text_response :: gm_response where
  "text_response =
     \<lparr>candidates = Some [\<lparr>content = Some \<lparr>parts = Some [\<lparr>part_text = Some (js '' Hi Ada, hello. '')\<rparr>]\<rparr>\<rparr>],
      promptFeedback = None\<rparr>"

definition empty_response :: gm_response where
  "empty_response = \<lparr>candidates = Some [], promptFeedback = None\<rparr>"

definition textless_response :: gm_response where
  "textless_response = \<lparr>candidates = Some [\<lparr>content = None\<rparr>], promptFeedback = None\<rparr>"

definition partless_response :: gm_response where
  "partless_response =
     \<lparr>candidates = Some [\<lparr>content = Some \<lparr>parts = None\<rparr>\<rparr>], promptFeedback = None\<rparr>"

definition noparts_response :: gm_response where
  "noparts_response =
     \<lparr>candidates = Some [\<lparr>content = Some \<lparr>parts = Some []\<rparr>\<rparr>], promptFeedback = None\<rparr>"

definition notext_response :: gm_response where
  "notext_response =
     \<lparr>candidates = Some [\<lparr>content = Some \<lparr>parts = Some [\<lparr>part_text = None\<rparr>]\<rparr>\<rparr>],
      promptFeedback = None\<rparr>"

definition ada_request :: jsval where
  "ada_request =
     JObj [(js ''profileData'',
              JObj [(js ''name'', JStr (js ''Ada'')), (js ''headline'', JStr (js ''Engineer''))]),
           (js ''userContext'', JStr (js ''CS grad'')),
           (js ''userRole'', JStr (js ''developer''))]"

definition blocking_network :: "jsstring \<Rightarrow> jsstring \<Rightarrow> fetch_outcome" where
  "blocking_network address prompt = HttpOk (Inr safety_response)"

definition echo_network :: "jsstring \<Rightarrow> jsstring \<Rightarrow> fetch_outcome" where
  "echo_network address prompt = NetworkError prompt"

section \<open>Example browsers\<close>

definition showGenerateButton :: jsval where
  "showGenerateButton = JObj [(js ''action'', JStr (js ''showGenerateButton''))]"

definition ada_tab :: tab where
  "ada_tab = \<lparr>url = Some (js ''https://www.linkedin.com/in/ada-lovelace/'')\<rparr>"

text \<open>A page without the content script, into which the script can be injected but
  never answers. The world counts the calls made.\<close>

definition silent_browser :: "nat chrome_api" where
  "silent_browser =
     \<lparr>tabs_get = (\<lambda>tabId w. (Inr (Some ada_tab), Suc w)),
      tabs_sendMessage = (\<lambda>tabId message w.
        (Inl (js ''Could not establish connection. Receiving end does not exist.''), Suc w)),
      scripting_executeScript = (\<lambda>tabId w. (Inr (), Suc w))\<rparr>"

text \<open>The same page when the browser refuses the injection.\<close>

definition locked_browser :: "nat chrome_api" where
  "locked_browser =
     \<lparr>tabs_get = (\<lambda>tabId w. (Inr (Some ada_tab), Suc w)),
      tabs_sendMessage = (\<lambda>tabId message w.
        (Inl (js ''Could not establish connection. Receiving end does not exist.''), Suc w)),
      scripting_executeScript = (\<lambda>tabId w. (Inl (js ''Cannot access contents of the page.''), Suc w))\<rparr>"

text \<open>
  A page whose script answers the probe (the second call) and is reloaded before the
  delivery (the third call), which is rejected; the script injected afterwards answers.
\<close>

definition reloading_browser :: "nat chrome_api" where
  "reloading_browser =
     \<lparr>tabs_get = (\<lambda>tabId w. (Inr (Some ada_tab), Suc w)),
      tabs_sendMessage = (\<lambda>tabId message w.
        (if w = Suc 0 then Inr (JObj [(js ''ready'', JBool True)])
         else if w = Suc (Suc 0)
         then Inl (js ''Could not establish connection. Receiving end does not exist.'')
         else Inr (failure (js ''Unknown action'')), Suc w)),
      scripting_executeScript = (\<lambda>tabId w. (Inr (), Suc w))\<rparr>"

text \<open>A page whose script is loaded: it answers the probe, and every other message as
  the content script answers an action it does not know.\<close>

definition ready_browser :: "nat chrome_api" where
  "ready_browser =
     \<lparr>tabs_get = (\<lambda>tabId w. (Inr (Some ada_tab), Suc w)),
      tabs_sendMessage = (\<lambda>tabId message w.
        (if message = ping then Inr (JObj [(js ''ready'', JBool True)])
         else Inr (failure (js ''Unknown action'')), Suc w)),
      scripting_executeScript = (\<lambda>tabId w. (Inr (), Suc w))\<rparr>"

section \<open>Lemmas on strings\<close>

lemma of_char_nat_less: "(of_char c :: nat) < 65536"
proof -
  have "(of_char c :: nat) < 256"
    by (cases c) (simp add: of_char_def)
  then show ?thesis by linarith
qed

lemma jschar_eq_iff: "(of_nat (of_char c) :: 16 word) = of_nat (of_char d) \<longleftrightarrow> c = d"
  using of_char_nat_less [of c] of_char_nat_less [of d]
  by (simp add: word_of_nat_eq_iff take_bit_nat_eq_self)

lemma js_eq_iff: "js a = js b \<longleftrightarrow> a = b"
  unfolding js_def
  by (rule inj_map_eq_map) (simp add: inj_def jschar_eq_iff)

lemma js_append: "js (a @ b) = js a @ js b"
  by (simp add: js_def)

lemma length_js: "length (js a) = length a"
  by (simp add: js_def)

lemma js_Nil_iff: "js a = [] \<longleftrightarrow> a = []"
  by (simp add: js_def)

lemma take_js: "take n (js a) = js (take n a)"
  by (simp add: js_def take_map)

lemma startsWith_iff: "startsWith s k \<longleftrightarrow> (\<exists>r. s = k @ r)"
  by (induction s k rule: startsWith.induct) auto

lemma str_includes_iff: "str_includes s k \<longleftrightarrow> (\<exists>p r. s = p @ k @ r)"
proof (induction s)
  case Nil
  then show ?case by auto
next
  case (Cons c cs)
  show ?case
  proof
    assume "str_includes (c # cs) k"
    then consider "startsWith (c # cs) k" | "str_includes cs k" by auto
    then show "\<exists>p r. c # cs = p @ k @ r"
    proof cases
      case 1
      then obtain r where "c # cs = k @ r" by (auto simp: startsWith_iff)
      then have "c # cs = [] @ k @ r" by simp
      then show ?thesis by blast
    next
      case 2
      then obtain p r where "cs = p @ k @ r" using Cons.IH by blast
      then have "c # cs = (c # p) @ k @ r" by simp
      then show ?thesis by blast
    qed
  next
    assume "\<exists>p r. c # cs = p @ k @ r"
    then obtain p r where eq: "c # cs = p @ k @ r" by blast
    show "str_includes (c # cs) k"
    proof (cases p)
      case Nil
      with eq have "startsWith (c # cs) k" by (auto simp: startsWith_iff)
      then show ?thesis by simp
    next
      case (Cons a p')
      with eq have "cs = p' @ k @ r" by simp
      then have "str_includes cs k" using Cons.IH by blast
      then show ?thesis by simp
    qed
  qed
qed

section \<open>Lemmas on the extractors\<close>

lemma firstMatchI:
  "selectors = pre @ selector # post \<Longrightarrow> \<forall>s\<in>set pre. \<not> hasText d s \<Longrightarrow>
   querySelector d selector = Some textContent \<Longrightarrow> trim textContent \<noteq> [] \<Longrightarrow>
   firstMatch d selectors selector textContent"
  by (auto simp: firstMatch_def)

lemma firstTrimmedText_skip:
  "\<forall>s\<in>set pre. \<not> hasText d s \<Longrightarrow> firstTrimmedText d (pre @ rest) = firstTrimmedText d rest"
  by (induction pre) (auto simp: hasText_def split: option.splits)

lemma firstTrimmedText_firstMatch:
  "firstMatch d selectors selector textContent \<Longrightarrow>
     firstTrimmedText d selectors = Some (trim textContent)"
  by (auto simp: firstMatch_def firstTrimmedText_skip)

lemma firstTrimmedText_noMatch:
  "noMatch d selectors \<Longrightarrow> firstTrimmedText d selectors = None"
  using firstTrimmedText_skip [of selectors d "[]"] by (simp add: noMatch_def)

lemma experienceLoop_skip:
  "\<forall>s\<in>set pre. querySelectorAll d s = [] \<Longrightarrow>
     experienceLoop d (pre @ rest) = experienceLoop d rest"
  by (induction pre) auto

lemma industryLoop_range:
  "industryLoop t table \<in> insert (js ''professional'') (fst ` set table)"
  by (induction t table rule: industryLoop.induct) auto

lemma industryLoop_skip:
  "\<forall>(c, kws)\<in>set pre. \<forall>k\<in>set kws. \<not> str_includes t k \<Longrightarrow>
     industryLoop t (pre @ rest) = industryLoop t rest"
  by (induction pre) (auto simp: list_ex_iff)

lemma industryLoop_default_iff:
  "js ''professional'' \<notin> fst ` set table \<Longrightarrow>
   industryLoop t table = js ''professional'' \<longleftrightarrow>
     (\<forall>(c, kws)\<in>set table. \<forall>k\<in>set kws. \<not> str_includes t k)"
  by (induction t table rule: industryLoop.induct) (auto simp: list_ex_iff)

lemma industries_names:
  "fst ` set industries = {js ''tech'', js ''marketing'', js ''sales'', js ''finance'',
     js ''healthcare'', js ''education'', js ''consulting''}"
  by (simp add: industries_def)

lemma professional_not_key: "js ''professional'' \<notin> fst ` set industries"
  by (simp add: industries_names js_eq_iff)

lemma startsWith_js: "startsWith (js a) (js k) = startsWith a k"
  by (induction a k rule: startsWith.induct) (auto simp: js_def jschar_eq_iff)

lemma str_includes_js: "str_includes (js a) (js k) = str_includes a k"
proof (induction a)
  case Nil
  then show ?case by (simp add: js_def)
next
  case (Cons c cs)
  have "js (c # cs) = of_nat (of_char c) # js cs" by (simp add: js_def)
  then show ?case
    using Cons startsWith_js [of "c # cs" k] by simp
qed

lemma occurs_in_iff: "occurs_in k t \<longleftrightarrow> str_includes t k"
  by (simp add: occurs_in_def str_includes_iff)

lemmas page_eval =
  ada_page_def blank_page_def querySelector_def hasText_def noMatch_def
  nameSelectors_def headlineSelectors_def companySelectors_def locationSelectors_def
  aboutSelectors_def experienceSelectors_def js_eq_iff

lemma trim_literals:
  "trim (js ''   '') = []"
  "trim (js '' Ada Lovelace '') = js ''Ada Lovelace''"
  "trim (js ''Engineer'') = js ''Engineer''"
  "trim (js ''Analytical Engines'') = js ''Analytical Engines''"
  "trim (js ''London'') = js ''London''"
  "trim (js '' Builds compilers '') = js ''Builds compilers''"
  "trim (js '' '') = []"
  "trim (js '''') = []"
  by (simp_all add: trim_def js_def isWhiteSpace_def)

lemma ada_about_firstMatch:
  "firstMatch ada_page aboutSelectors (js ''.pv-about__summary-text .break-words'')
     (js '' Builds compilers '')"
  by (rule firstMatchI [where pre = "[js ''.pv-shared-text-with-see-more-text .break-words'']"])
     (simp_all add: page_eval trim_literals js_Nil_iff)

lemma ada_headline_firstMatch:
  "firstMatch ada_page headlineSelectors (js ''.text-body-medium.break-words'') (js ''Engineer'')"
  by (rule firstMatchI [where pre = "[]"])
     (simp_all add: page_eval trim_literals js_Nil_iff)

lemma ada_company_firstMatch:
  "firstMatch ada_page companySelectors (js ''.ph5 .pv-entity__secondary-title'')
     (js ''Analytical Engines'')"
  by (rule firstMatchI [where pre = "take 2 companySelectors"])
     (simp_all add: page_eval trim_literals js_Nil_iff)

lemma ada_text:
  "extractHeadline ada_page @ js '' '' @ extractAbout ada_page @ js '' '' @ extractCompany ada_page
     = js ''Engineer Builds compilers... Analytical Engines''"
  by (simp add: extractHeadline_def extractAbout_def extractCompany_def substring0_def
      firstTrimmedText_firstMatch [OF ada_headline_firstMatch]
      firstTrimmedText_firstMatch [OF ada_about_firstMatch]
      firstTrimmedText_firstMatch [OF ada_company_firstMatch]
      trim_literals take_js js_append [symmetric] js_eq_iff)

lemma ada_text_href:
  "extractHeadline (ada_page\<lparr>href := []\<rparr>) @ js '' '' @ extractAbout (ada_page\<lparr>href := []\<rparr>)
       @ js '' '' @ extractCompany (ada_page\<lparr>href := []\<rparr>)
     = extractHeadline ada_page @ js '' '' @ extractAbout ada_page @ js '' ''
         @ extractCompany ada_page"
proof -
  have "querySelector (ada_page\<lparr>href := []\<rparr>) = querySelector ada_page"
    by (rule ext) (simp add: querySelector_def)
  then have "firstTrimmedText (ada_page\<lparr>href := []\<rparr>) sels = firstTrimmedText ada_page sels"
    for sels by (induction sels) (simp_all split: option.splits)
  then show ?thesis
    by (simp add: extractHeadline_def extractAbout_def extractCompany_def)
qed

lemma ada_text_lower:
  "asciiLower (js ''Engineer Builds compilers... Analytical Engines'')
     = js ''engineer builds compilers... analytical engines''"
  by (simp add: asciiLower_def js_def)


section \<open>Lemmas on the message handlers\<close>

lemma hasSuccessField_failure: "hasSuccessField (failure m)"
  by (simp add: hasSuccessField_def failure_def)

lemma hasSuccessField_success: "hasSuccessField (success props)"
  by (simp add: hasSuccessField_def success_def)

lemma hasSuccessField_getProfileData: "hasSuccessField (getProfileDataForMessage lower d)"
  by (simp add: getProfileDataForMessage_def hasSuccessField_failure hasSuccessField_success)

lemma hasSuccessField_handleResponseData: "hasSuccessField (handleResponseData r)"
  by (simp add: handleResponseData_def hasSuccessField_failure hasSuccessField_success
      split: option.splits list.splits sum.splits)

lemma hasSuccessField_handleGenerateMessage:
  "handleGenerateMessage k f data = Inr r \<Longrightarrow> hasSuccessField r"
  by (auto simp: handleGenerateMessage_def hasSuccessField_failure
      hasSuccessField_handleResponseData
      split: option.splits if_splits sum.splits fetch_outcome.splits)

lemma content_invariant_fresh: "content_invariant fresh_content"
  by (simp add: content_invariant_def fresh_content_def)

lemma content_invariant_initialize:
  "content_invariant st \<Longrightarrow> content_invariant (initializeContentScript st)"
  by (simp add: content_invariant_def initializeContentScript_def)

lemma content_invariant_onMessage:
  "content_invariant st \<Longrightarrow> content_invariant (snd (content_onMessage lower d request st))"
  by (auto simp: content_invariant_def content_onMessage_def initializeContentScript_def Let_def
      split: option.splits)

lemma content_one_response:
  "\<exists>r. fst (content_onMessage lower d request st) = [r]
     \<and> (field request (js ''action'') \<noteq> JStr (js ''ping'') \<longrightarrow> hasSuccessField r)
     \<and> (field request (js ''action'') = JStr (js ''ping'') \<longrightarrow>
          r = JObj [(js ''ready'', JBool (isContentScriptReady st))])"
  by (simp add: content_onMessage_def Let_def hasSuccessField_failure hasSuccessField_success
      hasSuccessField_getProfileData split: option.splits)

lemma content_unknown:
  "field request (js ''action'') \<notin> {JStr (js ''ping''), JStr (js ''getProfileData''),
       JStr (js ''settingsUpdated'')} \<Longrightarrow> content_invariant st \<Longrightarrow>
   fst (content_onMessage lower d request st) = [failure (js ''Unknown action'')]"
  by (auto simp: content_onMessage_def Let_def content_invariant_def initializeContentScript_def
      split: option.splits)

lemma manager_one_response:
  "field request (js ''action'') \<noteq> JStr (js ''generateGeminiMessage'') \<Longrightarrow>
   \<exists>r. fst (handleMessage request now sto) = [r] \<and> hasSuccessField r"
  by (simp add: handleMessage_def Let_def hasSuccessField_failure hasSuccessField_success
      split: sum.splits)

lemma manager_unknown:
  "field request (js ''action'') \<notin> {JStr (js ''getSettings''), JStr (js ''saveSettings''),
       JStr (js ''generateMessage''), JStr (js ''logActivity''),
       JStr (js ''generateGeminiMessage'')} \<Longrightarrow>
   fst (handleMessage request now sto) = [failure (js ''Unknown action'')]"
  by (simp add: handleMessage_def Let_def)

lemma toplevel_one_response:
  "field request (js ''action'') = JStr (js ''generateGeminiMessage'') \<Longrightarrow>
   fst (handleMessage request now sto) = []
   \<and> (\<exists>r. background_onMessage k f request = [r] \<and> hasSuccessField r)"
  by (auto simp: handleMessage_def Let_def background_onMessage_def js_eq_iff
      hasSuccessField_failure hasSuccessField_handleGenerateMessage split: sum.splits)

lemma toplevel_silent:
  "field request (js ''action'') \<noteq> JStr (js ''generateGeminiMessage'') \<Longrightarrow>
   background_onMessage k f request = []"
  by (simp add: background_onMessage_def)

section \<open>Lemmas on objects and the store\<close>

lemma map_of_put: "map_of (put k v obj) = (map_of obj)(k \<mapsto> v)"
  by (induction k v obj rule: put.induct) (auto simp: fun_eq_iff)

lemma map_of_assign:
  "distinct (map fst b) \<Longrightarrow> map_of (assign a b) = map_of a ++ map_of b"
proof (induction b arbitrary: a)
  case Nil
  then show ?case by simp
next
  case (Cons e b)
  obtain k v where e: "e = (k, v)" by (cases e)
  from Cons.prems e have k: "k \<notin> fst ` set b" and d: "distinct (map fst b)" by auto
  have "map_of (assign a (e # b)) = map_of (put k v a) ++ map_of b"
    using Cons.IH [OF d, of "put k v a"] e by simp
  also have "\<dots> = (map_of a)(k \<mapsto> v) ++ map_of b"
    by (simp only: map_of_put)
  also have "\<dots> = map_of a ++ map_of (e # b)"
  proof (rule ext)
    fix x
    show "((map_of a)(k \<mapsto> v) ++ map_of b) x = (map_of a ++ map_of (e # b)) x"
    proof (cases "x = k")
      case True
      moreover from k have "map_of b k = None" by (simp add: map_of_eq_None_iff)
      ultimately show ?thesis using e by (simp add: map_add_def)
    next
      case False
      then show ?thesis using e by (auto simp: map_add_def split: option.splits)
    qed
  qed
  finally show ?case .
qed

lemma fst_set_put: "fst ` set (put k v obj) = insert k (fst ` set obj)"
  by (induction k v obj rule: put.induct) auto

lemma distinct_put: "distinct (map fst obj) \<Longrightarrow> distinct (map fst (put k v obj))"
  by (induction k v obj rule: put.induct) (auto simp: fst_set_put)

lemma field_map_of: "map_of a k = map_of b k \<Longrightarrow> field a k = field b k"
  by (simp add: field_def)

lemma set_statistics_items:
  assumes "distinct (map fst (items st))" and "storage_set (put k v (items st)) st = Inr st'"
  shows "map_of (items st') = (map_of (items st))(k \<mapsto> v)"
proof -
  from assms(2) have "items st' = assign (items st) (put k v (items st))"
    by (auto simp: storage_set_def split: option.splits)
  then have "map_of (items st') = map_of (items st) ++ (map_of (items st))(k \<mapsto> v)"
    using assms(1) by (simp add: map_of_assign distinct_put map_of_put)
  also have "\<dots> = (map_of (items st))(k \<mapsto> v)"
    by (rule ext) (simp add: map_add_def split: option.splits)
  finally show ?thesis .
qed

lemma set_defaults_items:
  assumes "storage_set (defaultSettings now) st = Inr st'"
  shows "map_of (items st') = map_of (items st) ++ map_of (defaultSettings now)"
proof -
  have "distinct (map fst (defaultSettings now))"
    by (simp add: defaultSettings_def js_eq_iff)
  moreover from assms have "items st' = assign (items st) (defaultSettings now)"
    by (auto simp: storage_set_def split: option.splits)
  ultimately show ?thesis by (simp add: map_of_assign)
qed


lemma handleUpdate_items:
  assumes "distinct (map fst (items st))"
  shows "(\<exists>m. handleUpdate pv now st = Inl m)
     \<or> (handleUpdate pv now st = Inr st \<and> truthy (field (items st) (js ''statistics'')))
     \<or> (\<exists>st'. handleUpdate pv now st = Inr st'
          \<and> \<not> truthy (field (items st) (js ''statistics''))
          \<and> map_of (items st') = (map_of (items st))(js ''statistics'' \<mapsto> statisticsDefault now))"
proof (cases "handleUpdate pv now st")
  case (Inl m')
  then show ?thesis by blast
next
  case (Inr st')
  show ?thesis
  proof (cases "truthy (field (items st) (js ''statistics''))")
    case True
    with Inr show ?thesis
      by (auto simp: handleUpdate_def storage_get_def split: option.splits)
  next
    case False
    with Inr have "storage_set (put (js ''statistics'') (statisticsDefault now) (items st)) st
        = Inr st'"
      by (auto simp: handleUpdate_def storage_get_def statisticsDefault_def split: option.splits)
    from set_statistics_items [OF assms this] False Inr show ?thesis by blast
  qed
qed

section \<open>Lemmas on the generation client\<close>

lemma blocked_not_empty: "blockedMessage reason \<noteq> emptyMessage"
proof
  assume "blockedMessage reason = emptyMessage"
  then have "take 26 (blockedMessage reason) = take 26 emptyMessage" by simp
  then show False
    by (simp add: blockedMessage_def emptyMessage_def take_js js_eq_iff length_js)
qed

lemma promptTemplate_greeting:
  "\<exists>p r. promptTemplate firstName headline company industry
     = p @ (js ''Hi '' @ firstName @ js '','') @ r"
proof -
  have e1: "js ''Start with \"Hi '' = js ''Start with \"'' @ js ''Hi ''"
    and e2: "js '',\" using their first name.'' = js '','' @ js ''\" using their first name.''"
    by (simp_all add: js_append [symmetric])
  show ?thesis
    unfolding promptTemplate_def e1 e2
    by (metis append.assoc)
qed

lemma promptTemplate_headline:
  "\<exists>p r. promptTemplate firstName headline company industry = p @ headline @ r"
  unfolding promptTemplate_def by (metis append.assoc)

lemma split_space_first_js:
  "split_space_first (js s) = js (takeWhile (\<lambda>c. c \<noteq> CHR '' '') s)"
proof -
  have "(of_nat (of_char c) :: 16 word) \<noteq> 0x20 \<longleftrightarrow> c \<noteq> CHR '' ''" for c
    using jschar_eq_iff [of c "CHR '' ''"] by simp
  then show ?thesis
    by (simp add: split_space_first_def js_def takeWhile_map comp_def)
qed

lemma createPrompt_ada:
  "createPrompt (getMemberOpt ada_request ''profileData'')
     = Inr (promptTemplate (js ''Ada'') (js ''Engineer'') (js ''undefined'') (js ''undefined''))"
  by (simp add: createPrompt_def ada_request_def getMemberOpt_def getMember_def field_def
      js_eq_iff js_Nil_iff split_space_first_js)


section \<open>Lemmas on the bridge\<close>

lemmas count_defs = installs_def deliveries_def probes_def isInstall_def isDelivery_def isProbe_def

lemma injectAndSend_counts:
  "installs (fst (snd (injectAndSend api tabId message w))) = 1
   \<and> deliveries (fst (snd (injectAndSend api tabId message w))) \<le> 1
   \<and> probes (fst (snd (injectAndSend api tabId message w))) = 0"
  by (simp add: injectAndSend_def count_defs split: prod.splits sum.splits)

lemma after_counts:
  "installs (fst (snd (after done r))) = installs done + installs (fst (snd r))"
  "deliveries (fst (snd (after done r))) = deliveries done + deliveries (fst (snd r))"
  "probes (fst (snd (after done r))) = probes done + probes (fst (snd r))"
  by (simp_all add: after_def installs_def deliveries_def probes_def split: prod.splits)

lemma sendMessageToTab_bounds:
  "installs (fst (snd (sendMessageToTab api tabId message w))) \<le> 1
   \<and> deliveries (fst (snd (sendMessageToTab api tabId message w))) \<le> 2
   \<and> probes (fst (snd (sendMessageToTab api tabId message w))) \<le> 1"
proof -
  have small: "installs [TabsGet tabId] = 0" "deliveries [TabsGet tabId] = 0"
    "probes [TabsGet tabId] = 0"
    "installs [TabsGet tabId, Probe tabId] = 0" "deliveries [TabsGet tabId, Probe tabId] = 0"
    "probes [TabsGet tabId, Probe tabId] = 1"
    "installs [TabsGet tabId, Probe tabId, Deliver tabId message] = 0"
    "deliveries [TabsGet tabId, Probe tabId, Deliver tabId message] = 1"
    "probes [TabsGet tabId, Probe tabId, Deliver tabId message] = 1"
    by (simp_all add: count_defs)
  have i: "installs (fst (snd (injectAndSend api tabId message v))) = 1"
    "probes (fst (snd (injectAndSend api tabId message v))) = 0"
    "deliveries (fst (snd (injectAndSend api tabId message v))) \<le> Suc 0"
    "deliveries (fst (snd (injectAndSend api tabId message v))) \<le> 2" for v
    using injectAndSend_counts [of api tabId message v] by simp_all
  show ?thesis
    by (simp add: sendMessageToTab_def after_counts small i
        split: prod.splits sum.splits option.splits)
qed

lemma popup_bounds:
  "installs (fst (snd (popup_getProfileData api tabId w))) \<le> 1
   \<and> deliveries (fst (snd (popup_getProfileData api tabId w))) \<le> 2"
  by (simp add: popup_getProfileData_def count_defs split: prod.splits sum.splits)


lemma unanswered_probe:
  assumes "probeUnanswered api tabId" and "onLinkedIn api tabId w"
  shows "sendMessageToTab api tabId message w
    = after [TabsGet tabId, Probe tabId]
        (injectAndSend api tabId message
           (snd (tabs_sendMessage api tabId ping (snd (tabs_get api tabId w)))))"
proof -
  obtain t w1 where g: "tabs_get api tabId w = (Inr (Some t), w1)"
    using assms(2) by (cases "tabs_get api tabId w")
      (auto simp: onLinkedIn_def split: sum.splits option.splits)
  obtain u where u: "url t = Some u" "str_includes u (js ''linkedin.com'')"
    using assms(2) g by (auto simp: onLinkedIn_def split: option.splits)
  obtain o2 w2 where p: "tabs_sendMessage api tabId ping w1 = (o2, w2)"
    by (cases "tabs_sendMessage api tabId ping w1")
  have "\<not> answersReady o2"
    using assms(1) p unfolding probeUnanswered_def by (metis fst_conv)
  then show ?thesis
    using g u p
    by (auto simp: sendMessageToTab_def answersReady_def split: sum.splits)
qed

lemmas browser_eval =
  silent_browser_def locked_browser_def reloading_browser_def ada_tab_def
  probeUnanswered_def onLinkedIn_def answersReady_def str_includes_js

lemma silent_browser_calls:
  "tabs_get silent_browser tabId w = (Inr (Some ada_tab), Suc w)"
  "tabs_sendMessage silent_browser tabId message w
     = (Inl (js ''Could not establish connection. Receiving end does not exist.''), Suc w)"
  "scripting_executeScript silent_browser tabId w = (Inr (), Suc w)"
  by (simp_all add: silent_browser_def)

lemma locked_browser_calls:
  "tabs_get locked_browser tabId w = (Inr (Some ada_tab), Suc w)"
  "tabs_sendMessage locked_browser tabId message w
     = (Inl (js ''Could not establish connection. Receiving end does not exist.''), Suc w)"
  "scripting_executeScript locked_browser tabId w
     = (Inl (js ''Cannot access contents of the page.''), Suc w)"
  by (simp_all add: locked_browser_def)

lemma silent_browser_unanswered:
  "probeUnanswered silent_browser 7 \<and> onLinkedIn silent_browser 7 0"
  by (simp add: browser_eval)

lemma locked_browser_unanswered:
  "probeUnanswered locked_browser 7 \<and> onLinkedIn locked_browser 7 0"
  by (simp add: browser_eval)

lemma two_deliveries_only_after_ready:
  assumes "deliveries (fst (snd (sendMessageToTab api tabId message w))) = 2"
  shows "onLinkedIn api tabId w
    \<and> answersReady (fst (tabs_sendMessage api tabId ping (snd (tabs_get api tabId w))))
    \<and> (\<exists>m. fst (tabs_sendMessage api tabId message
                (snd (tabs_sendMessage api tabId ping (snd (tabs_get api tabId w))))) = Inl m)"
proof -
  have i: "deliveries (fst (snd (injectAndSend api tabId message v))) \<noteq> 2" for v
    using injectAndSend_counts [of api tabId message v] by simp
  have small: "deliveries [TabsGet tabId] = 0" "deliveries [TabsGet tabId, Probe tabId] = 0"
    "deliveries [TabsGet tabId, Probe tabId, Deliver tabId message] = 1"
    by (simp_all add: count_defs)
  show ?thesis
    using assms
    by (auto simp: sendMessageToTab_def after_counts small i onLinkedIn_def answersReady_def
        split: prod.splits sum.splits option.splits if_splits)
qed

lemma reloading_browser_calls:
  "scripting_executeScript reloading_browser tabId w = (Inr (), Suc w)"
  "tabs_sendMessage reloading_browser tabId message 4
     = (Inr (failure (js ''Unknown action'')), 5)"
  by (simp_all add: reloading_browser_def)

lemma reloading_browser_run:
  "sendMessageToTab reloading_browser 7 showGenerateButton 0
     = (failure (js ''Unknown action''),
        [TabsGet 7, Probe 7, Deliver 7 showGenerateButton, ExecuteScript 7, Wait 1500,
         Deliver 7 showGenerateButton], 5)"
proof -
  have "sendMessageToTab reloading_browser 7 showGenerateButton 0
       = (failure (js ''Unknown action''),
          [TabsGet 7, Probe 7, Deliver 7 showGenerateButton, ExecuteScript 7, Wait 1500,
           Deliver 7 showGenerateButton], Suc (Suc (Suc (Suc (Suc 0)))))"
    by (simp add: sendMessageToTab_def injectAndSend_def after_def reloading_browser_def
        ada_tab_def str_includes_js getMemberOpt_def field_def)
  moreover have "Suc (Suc (Suc (Suc (Suc 0)))) = (5::nat)" by simp
  ultimately show ?thesis by simp
qed

lemma ready_probe_delivers:
  assumes "onLinkedIn api tabId w"
    and "tabs_sendMessage api tabId ping (snd (tabs_get api tabId w)) = (Inr pingResponse, w2)"
    and "truthy (getMemberOpt pingResponse ''ready'')"
    and "tabs_sendMessage api tabId message w2 = (Inr response, w3)"
  shows "sendMessageToTab api tabId message w
    = (response, [TabsGet tabId, Probe tabId, Deliver tabId message], w3)"
  using assms
  by (cases "tabs_get api tabId w")
     (auto simp: sendMessageToTab_def onLinkedIn_def split: sum.splits option.splits)

lemma ready_probe_rejected_delivery:
  assumes "onLinkedIn api tabId w"
    and "tabs_sendMessage api tabId ping (snd (tabs_get api tabId w)) = (Inr pingResponse, w2)"
    and "truthy (getMemberOpt pingResponse ''ready'')"
    and "tabs_sendMessage api tabId message w2 = (Inl m, w3)"
  shows "sendMessageToTab api tabId message w
    = after [TabsGet tabId, Probe tabId, Deliver tabId message]
        (injectAndSend api tabId message w3)"
  using assms
  by (cases "tabs_get api tabId w")
     (auto simp: sendMessageToTab_def onLinkedIn_def split: sum.splits option.splits)

section \<open>Industry classification (C4)\<close>

text \<open>
  C4. For every input text, the industry loop returns one category of the fixed set of
  eight; it returns \<open>professional\<close> exactly when no keyword of any category occurs in the
  text; the table is tried in its declared order and the first category with an occurring
  keyword wins. The text that \<open>extractIndustry\<close> classifies on a page is the lower-cased
  \<open>headline + ' ' + about + ' ' + company\<close> of that page: the three statements hold of the
  extractor with this text, and two pages with the same such text get the same category.
\<close>

theorem industry_classification:
  "industryLoop text industries \<in> {js ''tech'', js ''marketing'', js ''sales'', js ''finance'',
       js ''healthcare'', js ''education'', js ''consulting'', js ''professional''}
   \<and> (industryLoop text industries = js ''professional'' \<longleftrightarrow>
        (\<forall>(category, keywords)\<in>set industries. \<forall>k\<in>set keywords. \<not> occurs_in k text))
   \<and> (\<forall>pre category keywords post.
        industries = pre @ (category, keywords) # post
        \<and> (\<forall>(c, kws)\<in>set pre. \<forall>k\<in>set kws. \<not> occurs_in k text)
        \<and> (\<exists>k\<in>set keywords. occurs_in k text)
        \<longrightarrow> industryLoop text industries = category)
   \<and> extractIndustry toLowerCase d \<in> {js ''tech'', js ''marketing'', js ''sales'', js ''finance'',
       js ''healthcare'', js ''education'', js ''consulting'', js ''professional''}
   \<and> (extractIndustry toLowerCase d = js ''professional'' \<longleftrightarrow>
        (\<forall>(category, keywords)\<in>set industries. \<forall>k\<in>set keywords.
           \<not> occurs_in k (toLowerCase (extractHeadline d @ js '' '' @ extractAbout d @ js '' ''
                                        @ extractCompany d))))
   \<and> (\<forall>pre category keywords post.
        industries = pre @ (category, keywords) # post
        \<and> (\<forall>(c, kws)\<in>set pre. \<forall>k\<in>set kws.
              \<not> occurs_in k (toLowerCase (extractHeadline d @ js '' '' @ extractAbout d @ js '' ''
                                           @ extractCompany d)))
        \<and> (\<exists>k\<in>set keywords.
              occurs_in k (toLowerCase (extractHeadline d @ js '' '' @ extractAbout d @ js '' ''
                                         @ extractCompany d)))
        \<longrightarrow> extractIndustry toLowerCase d = category)
   \<and> (toLowerCase (extractHeadline d @ js '' '' @ extractAbout d @ js '' '' @ extractCompany d)
        = toLowerCase (extractHeadline d' @ js '' '' @ extractAbout d' @ js '' ''
                         @ extractCompany d')
        \<longrightarrow> extractIndustry toLowerCase d = extractIndustry toLowerCase d')"
proof -
  have r: "industryLoop t industries \<in> {js ''tech'', js ''marketing'', js ''sales'',
       js ''finance'', js ''healthcare'', js ''education'', js ''consulting'', js ''professional''}"
    for t
    using industryLoop_range [of t industries] unfolding industries_names by blast
  have dflt: "industryLoop t industries = js ''professional'' \<longleftrightarrow>
        (\<forall>(category, keywords)\<in>set industries. \<forall>k\<in>set keywords. \<not> occurs_in k t)" for t
    using industryLoop_default_iff [OF professional_not_key, of t]
    by (simp add: occurs_in_iff)
  have first: "industryLoop t industries = category"
    if "industries = pre @ (category, ks) # post"
      and "\<forall>(c, kws)\<in>set pre. \<forall>k\<in>set kws. \<not> occurs_in k t"
      and "\<exists>k\<in>set ks. occurs_in k t"
    for pre category ks post t
  proof -
    have "industryLoop t (pre @ (category, ks) # post)
        = industryLoop t ((category, ks) # post)"
      using that(2) by (intro industryLoop_skip) (simp add: occurs_in_iff)
    also have "\<dots> = category" using that(3) by (simp add: list_ex_iff occurs_in_iff)
    finally show ?thesis using that(1) by simp
  qed
  let ?t = "toLowerCase (extractHeadline d @ js '' '' @ extractAbout d @ js '' ''
      @ extractCompany d)"
  have ex: "extractIndustry toLowerCase x
      = industryLoop (toLowerCase (extractHeadline x @ js '' '' @ extractAbout x @ js '' ''
          @ extractCompany x)) industries" for x
    by (simp add: extractIndustry_def industryText_def)
  have l1: "\<forall>pre category keywords post.
        industries = pre @ (category, keywords) # post
        \<and> (\<forall>(c, kws)\<in>set pre. \<forall>k\<in>set kws. \<not> occurs_in k text)
        \<and> (\<exists>k\<in>set keywords. occurs_in k text)
        \<longrightarrow> industryLoop text industries = category"
    using first [of _ _ _ _ "text"] by blast
  have l2: "\<forall>pre category keywords post.
        industries = pre @ (category, keywords) # post
        \<and> (\<forall>(c, kws)\<in>set pre. \<forall>k\<in>set kws. \<not> occurs_in k ?t)
        \<and> (\<exists>k\<in>set keywords. occurs_in k ?t)
        \<longrightarrow> extractIndustry toLowerCase d = category"
    unfolding ex using first [of _ _ _ _ ?t] by blast
  have p1: "extractIndustry toLowerCase d \<in> {js ''tech'', js ''marketing'', js ''sales'',
       js ''finance'', js ''healthcare'', js ''education'', js ''consulting'', js ''professional''}"
    unfolding ex by (rule r)
  have p2: "extractIndustry toLowerCase d = js ''professional'' \<longleftrightarrow>
        (\<forall>(category, keywords)\<in>set industries. \<forall>k\<in>set keywords. \<not> occurs_in k ?t)"
    unfolding ex by (rule dflt)
  have p3: "?t = toLowerCase (extractHeadline d' @ js '' '' @ extractAbout d' @ js '' ''
                         @ extractCompany d')
        \<longrightarrow> extractIndustry toLowerCase d = extractIndustry toLowerCase d'"
    unfolding ex by simp
  show ?thesis
    by (intro conjI r dflt l1 p1 p2 l2 p3)
qed

text \<open>
  The theorem at two texts, and at the example page: lower-cased, its text
  \<open>engineer builds compilers... analytical engines\<close> is classified \<open>tech\<close>; left as it
  is, with its capitals, no keyword occurs in it.
\<close>

theorem industry_classification_witness:
  "industryLoop (js ''marketing analyst'') industries = js ''marketing''
   \<and> industryLoop (js ''gardener'') industries = js ''professional''
   \<and> extractIndustry asciiLower ada_page = js ''tech''
   \<and> extractIndustry (\<lambda>s. s) ada_page = js ''professional''
   \<and> extractIndustry asciiLower ada_page = extractIndustry asciiLower (ada_page\<lparr>href := []\<rparr>)"
proof -
  let ?tech = "(js ''tech'', map js [''software'', ''developer'', ''engineer'', ''tech'',
         ''programming'', ''coding'', ''javascript'', ''python'', ''react'', ''node''])"
  let ?kws = "map js [''marketing'', ''digital'', ''social media'', ''seo'',
         ''content'', ''brand'', ''advertising'']"
  have h: "industries = [?tech] @ (js ''marketing'', ?kws) # drop 2 industries
      \<and> (\<forall>(c, kws)\<in>set [?tech]. \<forall>k\<in>set kws. \<not> occurs_in k (js ''marketing analyst''))
      \<and> (\<exists>k\<in>set ?kws. occurs_in k (js ''marketing analyst''))"
    by (simp add: industries_def occurs_in_iff str_includes_js)
  have a: "industryLoop (js ''marketing analyst'') industries = js ''marketing''"
    by (rule industry_classification [of "js ''marketing analyst''",
          THEN conjunct2, THEN conjunct2, THEN conjunct1, rule_format, OF h])
  have g: "\<forall>(category, keywords)\<in>set industries.
      \<forall>k\<in>set keywords. \<not> occurs_in k (js ''gardener'')"
    by (simp add: industries_def occurs_in_iff str_includes_js)
  have b: "industryLoop (js ''gardener'') industries = js ''professional''"
    using industry_classification [of "js ''gardener''", THEN conjunct2, THEN conjunct1] g
    by (rule iffD2)
  have hc: "industries = [] @ ?tech # drop 1 industries
      \<and> (\<forall>(c, kws)\<in>set []. \<forall>k\<in>set kws.
            \<not> occurs_in k (asciiLower (extractHeadline ada_page @ js '' '' @ extractAbout ada_page
                 @ js '' '' @ extractCompany ada_page)))
      \<and> (\<exists>k\<in>set (snd ?tech).
             occurs_in k (asciiLower (extractHeadline ada_page @ js '' '' @ extractAbout ada_page
                 @ js '' '' @ extractCompany ada_page)))"
    by (simp add: industries_def ada_text ada_text_lower occurs_in_iff str_includes_js)
  have c: "extractIndustry asciiLower ada_page = js ''tech''"
    using industry_classification [where toLowerCase = asciiLower and d = ada_page,
        THEN conjunct2, THEN conjunct2, THEN conjunct2, THEN conjunct2, THEN conjunct2,
        THEN conjunct1, rule_format, of "[]" "js ''tech''" "snd ?tech" "drop 1 industries"] hc
    by simp
  have hd: "\<forall>(category, keywords)\<in>set industries. \<forall>k\<in>set keywords.
      \<not> occurs_in k ((\<lambda>s. s) (extractHeadline ada_page @ js '' '' @ extractAbout ada_page
            @ js '' '' @ extractCompany ada_page))"
    by (simp add: industries_def ada_text occurs_in_iff str_includes_js)
  have d: "extractIndustry (\<lambda>s. s) ada_page = js ''professional''"
    using industry_classification [where toLowerCase = "\<lambda>s. s" and d = ada_page,
        THEN conjunct2, THEN conjunct2, THEN conjunct2, THEN conjunct2, THEN conjunct1] hd
    by (rule iffD2)
  have he: "asciiLower (extractHeadline ada_page @ js '' '' @ extractAbout ada_page @ js '' ''
        @ extractCompany ada_page)
      = asciiLower (extractHeadline (ada_page\<lparr>href := []\<rparr>) @ js '' ''
        @ extractAbout (ada_page\<lparr>href := []\<rparr>) @ js '' '' @ extractCompany (ada_page\<lparr>href := []\<rparr>))"
    by (simp only: ada_text_href)
  have e: "extractIndustry asciiLower ada_page = extractIndustry asciiLower (ada_page\<lparr>href := []\<rparr>)"
    by (rule industry_classification [where toLowerCase = asciiLower and d = ada_page,
        THEN conjunct2, THEN conjunct2, THEN conjunct2, THEN conjunct2, THEN conjunct2,
        THEN conjunct2, rule_format, OF he])
  show ?thesis by (intro conjI a b c d e)
qed

section \<open>The about field (C10)\<close>

text \<open>
  C10. When a locator of the about list matches (its element has non-empty trimmed text),
  the about field is the first 200 code units of the trimmed text of the first such
  locator, followed by \<open>...\<close>; a non-empty about field is therefore at most 203 code units
  long and ends in \<open>...\<close>; when no locator matches, the about field is the empty string.
\<close>

theorem extractAbout_truncated:
  "(firstMatch d aboutSelectors selector textContent \<longrightarrow>
      extractAbout d = take 200 (trim textContent) @ js ''...'')
   \<and> (extractAbout d \<noteq> [] \<longrightarrow>
        length (extractAbout d) \<le> 203 \<and> (\<exists>body. extractAbout d = body @ js ''...''))
   \<and> (noMatch d aboutSelectors \<longrightarrow> extractAbout d = [])"
proof -
  have a: "extractAbout d = take 200 (trim textContent) @ js ''...''"
    if "firstMatch d aboutSelectors selector textContent"
    using that by (simp add: extractAbout_def substring0_def firstTrimmedText_firstMatch)
  have b: "length (extractAbout d) \<le> 203 \<and> (\<exists>body. extractAbout d = body @ js ''...'')"
    if "extractAbout d \<noteq> []"
  proof -
    from that obtain t where "extractAbout d = take 200 t @ js ''...''"
      by (auto simp: extractAbout_def substring0_def split: option.splits)
    then show ?thesis by (auto simp: length_js)
  qed
  have c: "extractAbout d = []" if "noMatch d aboutSelectors"
    using that by (simp add: extractAbout_def firstTrimmedText_noMatch)
  show ?thesis using a b c by blast
qed

theorem extractAbout_truncated_witness:
  "extractAbout ada_page = js ''Builds compilers...''
   \<and> length (extractAbout ada_page) \<le> 203
   \<and> (\<exists>body. extractAbout ada_page = body @ js ''...'')
   \<and> extractAbout blank_page = []"
proof -
  note T = extractAbout_truncated [of ada_page "js ''.pv-about__summary-text .break-words''"
      "js '' Builds compilers ''"]
  have a: "extractAbout ada_page = js ''Builds compilers...''"
    using T ada_about_firstMatch
    by (simp add: trim_literals take_js js_append [symmetric] js_eq_iff)
  then have ne: "extractAbout ada_page \<noteq> []" by (simp add: js_Nil_iff)
  have b: "length (extractAbout ada_page) \<le> 203
      \<and> (\<exists>body. extractAbout ada_page = body @ js ''...'')"
    using T ne by blast
  have "noMatch blank_page aboutSelectors" by (simp add: page_eval)
  then have c: "extractAbout blank_page = []"
    using extractAbout_truncated [of blank_page] by blast
  show ?thesis using a b c by blast
qed

section \<open>The field extractors (C7)\<close>

text \<open>
  C7, as amended. The extractors are total: they have no failing branch, on any page.
  When no locator of the name list has text, the name is the literal \<open>there\<close>. The
  name, headline, company and location extractors return the trimmed text of the first
  locator of their ordered list that has text, else their default (\<open>there\<close> for the
  name, the empty string for the others). The about extractor returns the first 200 code
  units of that text followed by \<open>...\<close>. The experience extractor takes the first
  locator that matches any element at all and returns the trimmed texts of its first two
  elements joined by \<open>; \<close>, whether or not they are empty.
\<close>

theorem field_extractors:
  "(noMatch d nameSelectors \<longrightarrow> extractName d = js ''there'')
   \<and> (firstMatch d nameSelectors selector textContent \<longrightarrow> extractName d = trim textContent)
   \<and> (noMatch d headlineSelectors \<longrightarrow> extractHeadline d = [])
   \<and> (firstMatch d headlineSelectors selector textContent \<longrightarrow>
        extractHeadline d = trim textContent)
   \<and> (noMatch d companySelectors \<longrightarrow> extractCompany d = [])
   \<and> (firstMatch d companySelectors selector textContent \<longrightarrow>
        extractCompany d = trim textContent)
   \<and> (noMatch d locationSelectors \<longrightarrow> extractLocation d = [])
   \<and> (firstMatch d locationSelectors selector textContent \<longrightarrow>
        extractLocation d = trim textContent)
   \<and> (noMatch d aboutSelectors \<longrightarrow> extractAbout d = [])
   \<and> (firstMatch d aboutSelectors selector textContent \<longrightarrow>
        extractAbout d = take 200 (trim textContent) @ js ''...'')
   \<and> ((\<forall>s\<in>set experienceSelectors. querySelectorAll d s = []) \<longrightarrow> extractExperience d = [])
   \<and> (\<forall>pre post. experienceSelectors = pre @ selector # post
         \<and> (\<forall>s\<in>set pre. querySelectorAll d s = []) \<and> querySelectorAll d selector \<noteq> []
        \<longrightarrow> extractExperience d
            = join (js ''; '') (map trim (take 2 (querySelectorAll d selector))))"
proof -
  have ex0: "extractExperience d = []" if "\<forall>s\<in>set experienceSelectors. querySelectorAll d s = []"
    using experienceLoop_skip [of experienceSelectors d "[]"] that
    by (simp add: extractExperience_def)
  have ex1: "extractExperience d = join (js ''; '') (map trim (take 2 (querySelectorAll d selector)))"
    if "experienceSelectors = pre @ selector # post"
      and "\<forall>s\<in>set pre. querySelectorAll d s = []" and "querySelectorAll d selector \<noteq> []"
    for pre post
    using that experienceLoop_skip [of pre d "selector # post"]
    by (simp add: extractExperience_def)
  show ?thesis
    using ex0 ex1
    by (simp add: extractName_def extractHeadline_def extractCompany_def extractLocation_def
        extractAbout_def substring0_def firstTrimmedText_firstMatch firstTrimmedText_noMatch)
       blast
qed


text \<open>The theorem at the example pages.\<close>

lemma ada_name_firstMatch:
  "firstMatch ada_page nameSelectors (js ''.pv-text-details__left-panel h1'')
     (js '' Ada Lovelace '')"
  by (rule firstMatchI [where pre = "[js ''h1.text-heading-xlarge'']"])
     (simp_all add: page_eval trim_literals js_Nil_iff)

lemma ada_location_firstMatch:
  "firstMatch ada_page locationSelectors (js ''.text-body-small.inline.t-black--light'')
     (js ''London'')"
  by (rule firstMatchI [where pre = "[]"])
     (simp_all add: page_eval trim_literals js_Nil_iff)

lemma ada_experience:
  "experienceSelectors = [] @ js ''.experience-section .pv-entity__summary-info''
       # drop 1 experienceSelectors
   \<and> (\<forall>s\<in>set []. querySelectorAll ada_page s = [])
   \<and> querySelectorAll ada_page (js ''.experience-section .pv-entity__summary-info'') \<noteq> []"
  by (simp add: page_eval)

theorem field_extractors_witness:
  "extractName blank_page = js ''there''
   \<and> extractName ada_page = js ''Ada Lovelace''
   \<and> extractHeadline blank_page = []
   \<and> extractHeadline ada_page = js ''Engineer''
   \<and> extractCompany blank_page = []
   \<and> extractCompany ada_page = js ''Analytical Engines''
   \<and> extractLocation blank_page = []
   \<and> extractLocation ada_page = js ''London''
   \<and> extractAbout blank_page = []
   \<and> extractAbout ada_page = js ''Builds compilers...''
   \<and> extractExperience blank_page = []
   \<and> extractExperience ada_page = js ''; ''"
proof -
  note B = field_extractors [of blank_page]
  have blank: "noMatch blank_page nameSelectors" "noMatch blank_page headlineSelectors"
    "noMatch blank_page companySelectors" "noMatch blank_page locationSelectors"
    "noMatch blank_page aboutSelectors"
    "\<forall>s\<in>set experienceSelectors. querySelectorAll blank_page s = []"
    by (simp_all add: page_eval)
  have b: "extractName blank_page = js ''there''" "extractHeadline blank_page = []"
    "extractCompany blank_page = []" "extractLocation blank_page = []"
    "extractAbout blank_page = []" "extractExperience blank_page = []"
    using B blank by blast+
  have n: "extractName ada_page = js ''Ada Lovelace''"
    using field_extractors [of ada_page "js ''.pv-text-details__left-panel h1''"
        "js '' Ada Lovelace ''"] ada_name_firstMatch
    by (simp add: trim_literals)
  have h: "extractHeadline ada_page = js ''Engineer''"
    using field_extractors [of ada_page "js ''.text-body-medium.break-words''" "js ''Engineer''"]
      ada_headline_firstMatch
    by (simp add: trim_literals)
  have c: "extractCompany ada_page = js ''Analytical Engines''"
    using field_extractors [of ada_page "js ''.ph5 .pv-entity__secondary-title''"
        "js ''Analytical Engines''"] ada_company_firstMatch
    by (simp add: trim_literals)
  have l: "extractLocation ada_page = js ''London''"
    using field_extractors [of ada_page "js ''.text-body-small.inline.t-black--light''"
        "js ''London''"] ada_location_firstMatch
    by (simp add: trim_literals)
  have a: "extractAbout ada_page = js ''Builds compilers...''"
    using field_extractors [of ada_page "js ''.pv-about__summary-text .break-words''"
        "js '' Builds compilers ''"] ada_about_firstMatch
    by (simp add: trim_literals take_js js_append [symmetric] js_eq_iff)
  have "extractExperience ada_page = join (js ''; '') (map trim (take 2
      (querySelectorAll ada_page (js ''.experience-section .pv-entity__summary-info''))))"
    using field_extractors [of ada_page "js ''.experience-section .pv-entity__summary-info''"]
      ada_experience by blast
  then have e: "extractExperience ada_page = js ''; ''"
    by (simp add: page_eval trim_literals)
  show ?thesis using b n h c l a e by simp
qed

text \<open>
  The claim as stated, that each field extractor returns the first non-empty textual match
  of its locator list or else its default, fails for the about and experience fields: on
  the example page the first about match is \<open>Builds compilers\<close> and the extractor returns
  \<open>Builds compilers...\<close>; the first experience locator with text holds
  \<open>Engineer at Initech\<close> and the extractor returns \<open>; \<close>, which is neither that text nor
  the default.
\<close>

theorem field_extractors_counterexample:
  "firstMatch ada_page aboutSelectors (js ''.pv-about__summary-text .break-words'')
     (js '' Builds compilers '')
   \<and> trim (js '' Builds compilers '') = js ''Builds compilers''
   \<and> extractAbout ada_page = js ''Builds compilers...''
   \<and> extractAbout ada_page \<noteq> js ''Builds compilers''
   \<and> hasText ada_page (js ''[data-field=\"experience\"] .pv-entity__summary-info'')
   \<and> extractExperience ada_page = js ''; ''
   \<and> extractExperience ada_page \<noteq> js ''Engineer at Initech''
   \<and> extractExperience ada_page \<noteq> []"
proof -
  have a: "extractAbout ada_page = js ''Builds compilers...''"
    by (simp add: extractAbout_def substring0_def firstTrimmedText_firstMatch [OF ada_about_firstMatch]
        trim_literals take_js js_append [symmetric] js_eq_iff)
  have e: "extractExperience ada_page = js ''; ''"
    by (simp add: extractExperience_def page_eval trim_literals)
  have t: "hasText ada_page (js ''[data-field=\"experience\"] .pv-entity__summary-info'')"
    by (simp add: page_eval trim_def js_def isWhiteSpace_def)
  show ?thesis
    using a e t ada_about_firstMatch by (simp add: trim_literals js_eq_iff js_Nil_iff)
qed

section \<open>One response per message (C2)\<close>

text \<open>
  C2, as amended. The content script answers every message exactly once: \<open>ping\<close> with
  \<open>{ready: isContentScriptReady}\<close>, which has no \<open>success\<close> field, and every other action
  with an object that has a boolean \<open>success\<close> field; an action other than \<open>ping\<close>,
  \<open>getProfileData\<close> and \<open>settingsUpdated\<close> is answered
  \<open>{success: false, error: 'Unknown action'}\<close> (in every state in which a ready script has
  its assistant: the state before the script runs is one, and initialisation and the
  listener keep it so). The background script (the manager's
  listener and the top-level listener together) answers every message exactly once, with an
  object that has a boolean \<open>success\<close> field; an action other than \<open>getSettings\<close>,
  \<open>saveSettings\<close>, \<open>generateMessage\<close>, \<open>logActivity\<close> and \<open>generateGeminiMessage\<close> is
  answered \<open>{success: false, error: 'Unknown action'}\<close>.
\<close>

theorem one_response_per_action:
  "(\<exists>r. fst (content_onMessage toLowerCase d request st) = [r]
       \<and> (field request (js ''action'') \<noteq> JStr (js ''ping'') \<longrightarrow> hasSuccessField r)
       \<and> (field request (js ''action'') = JStr (js ''ping'') \<longrightarrow>
            r = JObj [(js ''ready'', JBool (isContentScriptReady st))]))
   \<and> (content_invariant st
        \<and> field request (js ''action'') \<notin> {JStr (js ''ping''), JStr (js ''getProfileData''),
             JStr (js ''settingsUpdated'')}
        \<longrightarrow> fst (content_onMessage toLowerCase d request st) = [failure (js ''Unknown action'')])
   \<and> (\<exists>r. fst (handleMessage request now sto) @ background_onMessage loadedKey fetch request = [r]
        \<and> hasSuccessField r)
   \<and> (field request (js ''action'') \<notin> {JStr (js ''getSettings''), JStr (js ''saveSettings''),
          JStr (js ''generateMessage''), JStr (js ''logActivity''),
          JStr (js ''generateGeminiMessage'')}
        \<longrightarrow> fst (handleMessage request now sto) @ background_onMessage loadedKey fetch request
             = [failure (js ''Unknown action'')])"
proof -
  have bg: "\<exists>r. fst (handleMessage request now sto) @ background_onMessage loadedKey fetch request
       = [r] \<and> hasSuccessField r"
  proof (cases "field request (js ''action'') = JStr (js ''generateGeminiMessage'')")
    case True
    then show ?thesis
      using toplevel_one_response [of request now sto loadedKey fetch] by auto
  next
    case False
    then show ?thesis
      using manager_one_response [of request now sto] toplevel_silent [of request loadedKey fetch]
      by auto
  qed
  have unk: "fst (handleMessage request now sto) @ background_onMessage loadedKey fetch request
      = [failure (js ''Unknown action'')]"
    if "field request (js ''action'') \<notin> {JStr (js ''getSettings''), JStr (js ''saveSettings''),
          JStr (js ''generateMessage''), JStr (js ''logActivity''),
          JStr (js ''generateGeminiMessage'')}"
    using that manager_unknown [of request now sto] toplevel_silent [of request loadedKey fetch]
    by simp
  show ?thesis
    using content_one_response [of toLowerCase d request st]
      content_unknown [of request st toLowerCase d] bg unk
    by blast
qed

text \<open>
  The theorem at \<open>showGenerateButton\<close>, which neither context recognises, and at \<open>ping\<close>
  and \<open>getProfileData\<close> in the content script.
\<close>

theorem one_response_per_action_witness:
  "fst (content_onMessage (\<lambda>s. s) blank_page [(js ''action'', JStr (js ''showGenerateButton''))]
          fresh_content) = [failure (js ''Unknown action'')]
   \<and> fst (content_onMessage (\<lambda>s. s) blank_page [(js ''action'', JStr (js ''ping''))]
          fresh_content) = [JObj [(js ''ready'', JBool False)]]
   \<and> (\<exists>r. fst (content_onMessage (\<lambda>s. s) blank_page [(js ''action'', JStr (js ''getProfileData''))]
          fresh_content) = [r] \<and> hasSuccessField r)
   \<and> fst (handleMessage [(js ''action'', JStr (js ''showGenerateButton''))] (js ''2024-01-01'')
            empty_store)
       @ background_onMessage None offline [(js ''action'', JStr (js ''showGenerateButton''))]
       = [failure (js ''Unknown action'')]"
proof -
  let ?req = "[(js ''action'', JStr (js ''showGenerateButton''))]"
  let ?ping = "[(js ''action'', JStr (js ''ping''))]"
  let ?get = "[(js ''action'', JStr (js ''getProfileData''))]"
  note T = one_response_per_action [of "\<lambda>s. s" blank_page ?req fresh_content
      "js ''2024-01-01''" empty_store None offline]
  have a1: "field ?req (js ''action'') \<notin> {JStr (js ''ping''), JStr (js ''getProfileData''),
             JStr (js ''settingsUpdated'')}"
    by (simp add: field_def js_eq_iff)
  have a2: "field ?req (js ''action'') \<notin> {JStr (js ''getSettings''), JStr (js ''saveSettings''),
          JStr (js ''generateMessage''), JStr (js ''logActivity''),
          JStr (js ''generateGeminiMessage'')}"
    by (simp add: field_def js_eq_iff)
  have c: "fst (content_onMessage (\<lambda>s. s) blank_page ?req fresh_content)
      = [failure (js ''Unknown action'')]"
    using T content_invariant_fresh a1 by blast
  have p: "field ?ping (js ''action'') = JStr (js ''ping'')"
    by (simp add: field_def)
  have "\<exists>r. fst (content_onMessage (\<lambda>s. s) blank_page ?ping fresh_content) = [r]
      \<and> r = JObj [(js ''ready'', JBool (isContentScriptReady fresh_content))]"
    using one_response_per_action [of "\<lambda>s. s" blank_page ?ping fresh_content
      "js ''2024-01-01''" empty_store None offline, THEN conjunct1] p
    by blast
  then have q: "fst (content_onMessage (\<lambda>s. s) blank_page ?ping fresh_content)
      = [JObj [(js ''ready'', JBool False)]]"
    by (simp add: fresh_content_def)
  have g: "field ?get (js ''action'') \<noteq> JStr (js ''ping'')"
    by (simp add: field_def js_eq_iff)
  have h: "\<exists>r. fst (content_onMessage (\<lambda>s. s) blank_page ?get fresh_content) = [r]
      \<and> hasSuccessField r"
    using one_response_per_action [of "\<lambda>s. s" blank_page ?get fresh_content
      "js ''2024-01-01''" empty_store None offline, THEN conjunct1] g
    by blast
  have b: "fst (handleMessage ?req (js ''2024-01-01'') empty_store)
       @ background_onMessage None offline ?req = [failure (js ''Unknown action'')]"
    using T a2 by blast
  show ?thesis using c q h b by blast
qed

text \<open>
  The claim as stated fails at \<open>ping\<close>: the content script answers it with
  \<open>{ready: false}\<close>, an object without a \<open>success\<close> field.
\<close>

theorem one_response_per_action_counterexample:
  "content_onMessage (\<lambda>s. s) blank_page [(js ''action'', JStr (js ''ping''))] fresh_content
     = ([JObj [(js ''ready'', JBool False)]], fresh_content)
   \<and> \<not> hasSuccessField (JObj [(js ''ready'', JBool False)])"
  by (simp add: content_onMessage_def field_def fresh_content_def hasSuccessField_def js_eq_iff)


section \<open>Ping and lazy initialisation (C9)\<close>

text \<open>
  C9. A \<open>ping\<close> is answered with \<open>{ready: isContentScriptReady}\<close> and leaves the state of
  the content script as it was: a script that is not initialised answers \<open>{ready: false}\<close>
  and stays uninitialised, with the assistant it had. Every other message is handled as
  it would be after \<open>initializeContentScript\<close>, which does nothing to a ready script and
  otherwise creates the assistant and sets the ready flag; the script is ready afterwards.
\<close>

theorem ping_leaves_state:
  "(field request (js ''action'') = JStr (js ''ping'') \<longrightarrow>
      content_onMessage toLowerCase d request st
        = ([JObj [(js ''ready'', JBool (isContentScriptReady st))]], st))
   \<and> (field request (js ''action'') = JStr (js ''ping'') \<and> \<not> isContentScriptReady st \<longrightarrow>
        fst (content_onMessage toLowerCase d request st) = [JObj [(js ''ready'', JBool False)]]
        \<and> isContentScriptReady (snd (content_onMessage toLowerCase d request st)) = False
        \<and> linkedinAssistant (snd (content_onMessage toLowerCase d request st))
            = linkedinAssistant st)
   \<and> (field request (js ''action'') \<noteq> JStr (js ''ping'') \<longrightarrow>
        content_onMessage toLowerCase d request st
          = content_onMessage toLowerCase d request (initializeContentScript st)
        \<and> isContentScriptReady (snd (content_onMessage toLowerCase d request st)))
   \<and> (field request (js ''action'') \<noteq> JStr (js ''ping'') \<and> \<not> isContentScriptReady st \<longrightarrow>
        linkedinAssistant (snd (content_onMessage toLowerCase d request st)) \<noteq> None
        \<and> linkedInAssistantLoaded (snd (content_onMessage toLowerCase d request st)))
   \<and> (isContentScriptReady st \<longrightarrow> initializeContentScript st = st)"
  by (auto simp: content_onMessage_def initializeContentScript_def Let_def split: option.splits)

text \<open>The theorem at a script that has not run yet.\<close>

theorem ping_leaves_state_witness:
  "content_onMessage (\<lambda>s. s) blank_page [(js ''action'', JStr (js ''ping''))] fresh_content
     = ([JObj [(js ''ready'', JBool False)]], fresh_content)
   \<and> isContentScriptReady (snd (content_onMessage (\<lambda>s. s) blank_page
         [(js ''action'', JStr (js ''getProfileData''))] fresh_content))
   \<and> linkedinAssistant (snd (content_onMessage (\<lambda>s. s) blank_page
         [(js ''action'', JStr (js ''getProfileData''))] fresh_content)) \<noteq> None
   \<and> initializeContentScript (initializeContentScript fresh_content)
       = initializeContentScript fresh_content"
proof -
  let ?ping = "[(js ''action'', JStr (js ''ping''))]"
  let ?get = "[(js ''action'', JStr (js ''getProfileData''))]"
  have p: "field ?ping (js ''action'') = JStr (js ''ping'')" by (simp add: field_def)
  have g: "field ?get (js ''action'') \<noteq> JStr (js ''ping'')" by (simp add: field_def js_eq_iff)
  have nr: "\<not> isContentScriptReady fresh_content" by (simp add: fresh_content_def)
  have r: "isContentScriptReady (initializeContentScript fresh_content)"
    by (simp add: initializeContentScript_def fresh_content_def)
  have a: "content_onMessage (\<lambda>s. s) blank_page ?ping fresh_content
     = ([JObj [(js ''ready'', JBool False)]], fresh_content)"
    using ping_leaves_state [of ?ping "\<lambda>s. s" blank_page fresh_content] p nr by simp
  have b: "isContentScriptReady (snd (content_onMessage (\<lambda>s. s) blank_page ?get fresh_content))
    \<and> linkedinAssistant (snd (content_onMessage (\<lambda>s. s) blank_page ?get fresh_content)) \<noteq> None"
    using ping_leaves_state [of ?get "\<lambda>s. s" blank_page fresh_content] g nr by blast
  have c: "initializeContentScript (initializeContentScript fresh_content)
       = initializeContentScript fresh_content"
    using ping_leaves_state [of ?ping "\<lambda>s. s" blank_page "initializeContentScript fresh_content"] r
    by blast
  show ?thesis using a b c by blast
qed

section \<open>The version-update migration (C5)\<close>

text \<open>
  C5, as amended. For every settings document (an object, each key once), with or without
  unknown fields, the version-update migration leaves every field other than
  \<open>statistics\<close> as it is, neither overwritten nor removed; a truthy \<open>statistics\<close> section
  is left as it is too, and the store is then not written at all; a \<open>statistics\<close> field
  that is absent or falsy (\<open>null\<close>, \<open>0\<close>, \<open>''\<close>, \<open>false\<close>) becomes
  \<open>{messagesGenerated: 0, extensionUpdated: now}\<close> when the store accepts the read and the
  write. No other section is added.
\<close>

theorem migration_additive:
  "distinct (map fst (items st)) \<longrightarrow>
     (\<forall>k. k \<noteq> js ''statistics'' \<longrightarrow>
        map_of (items (handleInstallation (js ''update'') previousVersion now st)) k
          = map_of (items st) k)
     \<and> (truthy (field (items st) (js ''statistics'')) \<longrightarrow>
          handleInstallation (js ''update'') previousVersion now st = st)
     \<and> (\<not> truthy (field (items st) (js ''statistics''))
          \<and> get_fails st = None \<and> set_fails st = None \<longrightarrow>
          field (items (handleInstallation (js ''update'') previousVersion now st))
            (js ''statistics'') = statisticsDefault now)"
proof
  assume d: "distinct (map fst (items st))"
  let ?st' = "handleInstallation (js ''update'') previousVersion now st"
  have upd: "?st' = (case handleUpdate previousVersion now st of Inl m \<Rightarrow> st | Inr st' \<Rightarrow> st')"
    by (simp add: handleInstallation_def js_eq_iff)
  have frame: "map_of (items ?st') k = map_of (items st) k" if "k \<noteq> js ''statistics''" for k
    using handleUpdate_items [OF d, of previousVersion now] that unfolding upd
    by (auto split: sum.splits)
  have same: "?st' = st" if "truthy (field (items st) (js ''statistics''))"
    using that unfolding upd
    by (auto simp: handleUpdate_def storage_get_def split: option.splits sum.splits)
  have added: "field (items ?st') (js ''statistics'') = statisticsDefault now"
    if "\<not> truthy (field (items st) (js ''statistics''))"
      and "get_fails st = None" and "set_fails st = None"
  proof -
    from that obtain st' where r: "handleUpdate previousVersion now st = Inr st'"
      by (auto simp: handleUpdate_def storage_get_def storage_set_def)
    with handleUpdate_items [OF d, of previousVersion now] that(1)
    have "map_of (items st') = (map_of (items st))(js ''statistics'' \<mapsto> statisticsDefault now)"
      by auto
    with r show ?thesis unfolding upd by (simp add: field_def)
  qed
  show "(\<forall>k. k \<noteq> js ''statistics'' \<longrightarrow> map_of (items ?st') k = map_of (items st) k)
     \<and> (truthy (field (items st) (js ''statistics'')) \<longrightarrow> ?st' = st)
     \<and> (\<not> truthy (field (items st) (js ''statistics''))
          \<and> get_fails st = None \<and> set_fails st = None \<longrightarrow>
          field (items ?st') (js ''statistics'') = statisticsDefault now)"
    using frame same added by blast
qed

text \<open>
  The theorem at a store that holds the user's context and an unknown field \<open>theme\<close>
  and no statistics: the migration adds the statistics and keeps the rest, and a second
  migration changes nothing.
\<close>

theorem migration_additive_witness:
  "map_of (items (handleInstallation (js ''update'') (js ''1.0.0'') (js ''2024-01-01'') saved_store))
      (js ''userContext'') = Some (JStr (js ''CS grad''))
   \<and> map_of (items (handleInstallation (js ''update'') (js ''1.0.0'') (js ''2024-01-01'') saved_store))
      (js ''theme'') = Some (JStr (js ''dark''))
   \<and> field (items (handleInstallation (js ''update'') (js ''1.0.0'') (js ''2024-01-01'') saved_store))
      (js ''statistics'')
       = JObj [(js ''messagesGenerated'', JNum 0), (js ''extensionUpdated'', JStr (js ''2024-01-01''))]
   \<and> handleInstallation (js ''update'') (js ''1.0.0'') (js ''2024-01-02'')
        (handleInstallation (js ''update'') (js ''1.0.0'') (js ''2024-01-01'') saved_store)
       = handleInstallation (js ''update'') (js ''1.0.0'') (js ''2024-01-01'') saved_store"
proof -
  let ?st1 = "handleInstallation (js ''update'') (js ''1.0.0'') (js ''2024-01-01'') saved_store"
  have d: "distinct (map fst (items saved_store))"
    by (simp add: saved_store_def js_eq_iff)
  have f: "\<not> truthy (field (items saved_store) (js ''statistics''))"
    "get_fails saved_store = None" "set_fails saved_store = None"
    by (simp_all add: saved_store_def field_def js_eq_iff)
  note T = migration_additive [of saved_store "js ''1.0.0''" "js ''2024-01-01''", rule_format, OF d]
  have a: "map_of (items ?st1) (js ''userContext'') = Some (JStr (js ''CS grad''))"
    "map_of (items ?st1) (js ''theme'') = Some (JStr (js ''dark''))"
    using T by (simp_all add: saved_store_def js_eq_iff)
  have b: "field (items ?st1) (js ''statistics'') = statisticsDefault (js ''2024-01-01'')"
    using T f by blast
  have st1: "?st1 = saved_store\<lparr>items := [(js ''userContext'', JStr (js ''CS grad'')),
      (js ''theme'', JStr (js ''dark'')),
      (js ''statistics'', statisticsDefault (js ''2024-01-01''))]\<rparr>"
    by (simp add: handleInstallation_def handleUpdate_def storage_get_def storage_set_def
        saved_store_def field_def js_eq_iff statisticsDefault_def)
  have d1: "distinct (map fst (items ?st1))"
    unfolding st1 by (simp add: js_eq_iff)
  have t1: "truthy (field (items ?st1) (js ''statistics''))"
    unfolding st1 by (simp add: field_def js_eq_iff statisticsDefault_def)
  have c: "handleInstallation (js ''update'') (js ''1.0.0'') (js ''2024-01-02'') ?st1 = ?st1"
    using migration_additive [of ?st1 "js ''1.0.0''" "js ''2024-01-02''", rule_format, OF d1] t1
    by blast
  show ?thesis using a b c by (simp add: statisticsDefault_def)
qed

text \<open>
  The claim as stated, that no existing field is overwritten, fails for a document whose
  \<open>statistics\<close> field is present and falsy: \<open>!currentSettings.statistics\<close> holds of
  \<open>null\<close>, and the field is replaced.
\<close>

theorem migration_additive_counterexample:
  "map_of (items cleared_store) (js ''statistics'') = Some JNull
   \<and> map_of (items (handleInstallation (js ''update'') (js ''1.0.0'') (js ''2024-01-01'')
        cleared_store)) (js ''statistics'')
       = Some (JObj [(js ''messagesGenerated'', JNum 0),
                     (js ''extensionUpdated'', JStr (js ''2024-01-01''))])"
  by (simp add: handleInstallation_def handleUpdate_def storage_get_def storage_set_def
      cleared_store_def field_def js_eq_iff)

text \<open>
  The startup check \<open>verifySettings\<close> is another path, and not an additive one: when the
  \<open>settings\<close> section is missing it writes all four default sections over the document.
\<close>

lemma verifySettings_overwrites:
  "field (items saved_store) (js ''userContext'') = JStr (js ''CS grad'')
   \<and> field (items (handleStartup (js ''2024-01-01'') saved_store)) (js ''userContext'') = JStr []
   \<and> field (items (handleStartup (js ''2024-01-01'') saved_store)) (js ''theme'')
       = JStr (js ''dark'')"
  by (simp add: handleStartup_def verifySettings_def setDefaultSettings_def defaultSettings_def
      storage_get_def storage_set_def saved_store_def field_def js_eq_iff)

section \<open>The three-way branch of the generation client (C3)\<close>

text \<open>
  C3, as amended. For every response body whose first candidate carries a text at
  \<open>content.parts[0].text\<close>, the client returns that text trimmed, as a success; when the
  first candidate has no content, or content without parts, or an empty list of parts, or a
  first part without text, reading it throws and the client returns the message of that
  error as a failure (reading \<open>parts\<close>, \<open>0\<close>, \<open>text\<close> and \<open>trim\<close> of \<open>undefined\<close>). For every body with no candidate and a non-empty block reason in
  its prompt feedback, it returns the blocked error carrying that reason, which is never the
  empty-response error. For every body with neither a candidate nor a block reason it
  returns the empty-response error. \<open>handleGenerateMessage\<close> returns this result whenever
  the key is loaded, the prompt is built and the request is answered \<open>ok\<close> with that body.
\<close>

theorem generation_three_way:
  "(candidates r = Some (c # cs) \<and> content c = Some co \<and> parts co = Some (p # ps)
      \<and> part_text p = Some message \<longrightarrow>
      handleResponseData r = success [(js ''message'', JStr (trim message))])
   \<and> (candidates r = Some (c # cs) \<and> content c = None \<longrightarrow>
        handleResponseData r = failure (cannotRead ''undefined'' ''parts''))
   \<and> (candidates r = Some (c # cs) \<and> content c = Some co \<and> parts co = None \<longrightarrow>
        handleResponseData r = failure (cannotRead ''undefined'' ''0''))
   \<and> (candidates r = Some (c # cs) \<and> content c = Some co \<and> parts co = Some [] \<longrightarrow>
        handleResponseData r = failure (cannotRead ''undefined'' ''text''))
   \<and> (candidates r = Some (c # cs) \<and> content c = Some co \<and> parts co = Some (p # ps)
        \<and> part_text p = None \<longrightarrow>
        handleResponseData r = failure (cannotRead ''undefined'' ''trim''))
   \<and> (noCandidates r \<and> promptFeedback r = Some fb \<and> blockReason fb = Some reason
        \<and> reason \<noteq> [] \<longrightarrow>
        handleResponseData r = failure (blockedMessage reason)
        \<and> handleResponseData r \<noteq> failure emptyMessage)
   \<and> (noCandidates r \<and> noBlockReason r \<longrightarrow> handleResponseData r = failure emptyMessage)
   \<and> (loadedKey = Some apiKey \<and> apiKey \<noteq> [] \<and> destructure data ''profileData'' = Inr profileData
        \<and> createPrompt profileData = Inr prompt \<and> fetch (apiUrl apiKey) prompt = HttpOk (Inr r)
        \<longrightarrow> handleGenerateMessage loadedKey fetch data = Inr (handleResponseData r))"
proof -
  have a: "handleResponseData r = success [(js ''message'', JStr (trim message))]"
    if "candidates r = Some (c # cs)" "content c = Some co" "parts co = Some (p # ps)"
      "part_text p = Some message"
    using that by (simp add: handleResponseData_def candidateText_def)
  have b1: "handleResponseData r = failure (cannotRead ''undefined'' ''parts'')"
    if "candidates r = Some (c # cs)" "content c = None"
    using that by (simp add: handleResponseData_def candidateText_def)
  have b2: "handleResponseData r = failure (cannotRead ''undefined'' ''0'')"
    if "candidates r = Some (c # cs)" "content c = Some co" "parts co = None"
    using that by (simp add: handleResponseData_def candidateText_def)
  have b3: "handleResponseData r = failure (cannotRead ''undefined'' ''text'')"
    if "candidates r = Some (c # cs)" "content c = Some co" "parts co = Some []"
    using that by (simp add: handleResponseData_def candidateText_def)
  have b4: "handleResponseData r = failure (cannotRead ''undefined'' ''trim'')"
    if "candidates r = Some (c # cs)" "content c = Some co" "parts co = Some (p # ps)"
      "part_text p = None"
    using that by (simp add: handleResponseData_def candidateText_def)
  have c: "handleResponseData r = failure (blockedMessage reason)
        \<and> handleResponseData r \<noteq> failure emptyMessage"
    if "noCandidates r" "promptFeedback r = Some fb" "blockReason fb = Some reason" "reason \<noteq> []"
    using that blocked_not_empty [of reason]
    by (auto simp: handleResponseData_def noCandidates_def failure_def)
  have d: "handleResponseData r = failure emptyMessage" if "noCandidates r" "noBlockReason r"
    using that
    by (auto simp: handleResponseData_def noCandidates_def noBlockReason_def
        split: option.splits)
  have e: "handleGenerateMessage loadedKey fetch data = Inr (handleResponseData r)"
    if "loadedKey = Some apiKey" "apiKey \<noteq> []" "destructure data ''profileData'' = Inr profileData"
      "createPrompt profileData = Inr prompt" "fetch (apiUrl apiKey) prompt = HttpOk (Inr r)"
    using that by (simp add: handleGenerateMessage_def)
  show ?thesis
    by (intro conjI impI; (elim conjE)?) (rule a b1 b2 b3 b4 c [THEN conjunct1] c [THEN conjunct2] d e; assumption)+
qed

text \<open>The theorem at seven response bodies and at one whole request.\<close>

theorem generation_three_way_witness:
  "handleResponseData text_response = success [(js ''message'', JStr (js ''Hi Ada, hello.''))]
   \<and> handleResponseData textless_response = failure (cannotRead ''undefined'' ''parts'')
   \<and> handleResponseData partless_response = failure (cannotRead ''undefined'' ''0'')
   \<and> handleResponseData noparts_response = failure (cannotRead ''undefined'' ''text'')
   \<and> handleResponseData notext_response = failure (cannotRead ''undefined'' ''trim'')
   \<and> handleResponseData safety_response = failure (blockedMessage (js ''SAFETY''))
   \<and> handleResponseData safety_response \<noteq> failure emptyMessage
   \<and> handleResponseData empty_response = failure emptyMessage
   \<and> handleGenerateMessage (Some (js ''KEY'')) blocking_network ada_request
       = Inr (failure (blockedMessage (js ''SAFETY'')))"
proof -
  let ?p = "\<lparr>part_text = Some (js '' Hi Ada, hello. '')\<rparr>"
  have tr: "trim (js '' Hi Ada, hello. '') = js ''Hi Ada, hello.''"
    by (simp add: trim_def js_def isWhiteSpace_def)
  have ha: "candidates text_response = Some (\<lparr>content = Some \<lparr>parts = Some [?p]\<rparr>\<rparr> # [])
      \<and> content \<lparr>content = Some \<lparr>parts = Some [?p]\<rparr>\<rparr> = Some \<lparr>parts = Some [?p]\<rparr>
      \<and> parts \<lparr>parts = Some [?p]\<rparr> = Some (?p # [])
      \<and> part_text ?p = Some (js '' Hi Ada, hello. '')"
    by (simp add: text_response_def)
  have a: "handleResponseData text_response = success [(js ''message'', JStr (js ''Hi Ada, hello.''))]"
    using generation_three_way [THEN conjunct1, rule_format, OF ha] by (simp add: tr)
  have hb1: "candidates textless_response = Some (\<lparr>content = None\<rparr> # [])
      \<and> content \<lparr>content = None\<rparr> = None"
    by (simp add: textless_response_def)
  have b1: "handleResponseData textless_response = failure (cannotRead ''undefined'' ''parts'')"
    by (rule generation_three_way [THEN conjunct2, THEN conjunct1, rule_format, OF hb1])
  have hb2: "candidates partless_response = Some (\<lparr>content = Some \<lparr>parts = None\<rparr>\<rparr> # [])
      \<and> content \<lparr>content = Some \<lparr>parts = None\<rparr>\<rparr> = Some \<lparr>parts = None\<rparr>
      \<and> parts \<lparr>parts = None\<rparr> = None"
    by (simp add: partless_response_def)
  have b2: "handleResponseData partless_response = failure (cannotRead ''undefined'' ''0'')"
    by (rule generation_three_way [THEN conjunct2, THEN conjunct2, THEN conjunct1, rule_format,
          OF hb2])
  have hb3: "candidates noparts_response = Some (\<lparr>content = Some \<lparr>parts = Some []\<rparr>\<rparr> # [])
      \<and> content \<lparr>content = Some \<lparr>parts = Some []\<rparr>\<rparr> = Some \<lparr>parts = Some []\<rparr>
      \<and> parts \<lparr>parts = Some []\<rparr> = Some []"
    by (simp add: noparts_response_def)
  have b3: "handleResponseData noparts_response = failure (cannotRead ''undefined'' ''text'')"
    by (rule generation_three_way [THEN conjunct2, THEN conjunct2, THEN conjunct2, THEN conjunct1,
          rule_format, OF hb3])
  let ?q = "\<lparr>part_text = None\<rparr>"
  have hb4: "candidates notext_response = Some (\<lparr>content = Some \<lparr>parts = Some [?q]\<rparr>\<rparr> # [])
      \<and> content \<lparr>content = Some \<lparr>parts = Some [?q]\<rparr>\<rparr> = Some \<lparr>parts = Some [?q]\<rparr>
      \<and> parts \<lparr>parts = Some [?q]\<rparr> = Some (?q # [])
      \<and> part_text ?q = None"
    by (simp add: notext_response_def)
  have b4: "handleResponseData notext_response = failure (cannotRead ''undefined'' ''trim'')"
    by (rule generation_three_way [THEN conjunct2, THEN conjunct2, THEN conjunct2, THEN conjunct2,
          THEN conjunct1, rule_format, OF hb4])
  have hc: "noCandidates safety_response
      \<and> promptFeedback safety_response = Some \<lparr>blockReason = Some (js ''SAFETY'')\<rparr>
      \<and> blockReason \<lparr>blockReason = Some (js ''SAFETY'')\<rparr> = Some (js ''SAFETY'')
      \<and> js ''SAFETY'' \<noteq> []"
    by (simp add: safety_response_def noCandidates_def js_Nil_iff)
  have c: "handleResponseData safety_response = failure (blockedMessage (js ''SAFETY''))
      \<and> handleResponseData safety_response \<noteq> failure emptyMessage"
    by (rule generation_three_way [THEN conjunct2, THEN conjunct2, THEN conjunct2, THEN conjunct2,
          THEN conjunct2, THEN conjunct1, rule_format, OF hc])
  have hd: "noCandidates empty_response \<and> noBlockReason empty_response"
    by (simp add: empty_response_def noCandidates_def noBlockReason_def)
  have d: "handleResponseData empty_response = failure emptyMessage"
    by (rule generation_three_way [THEN conjunct2, THEN conjunct2, THEN conjunct2, THEN conjunct2,
          THEN conjunct2, THEN conjunct2, THEN conjunct1, rule_format, OF hd])
  have he: "Some (js ''KEY'') = Some (js ''KEY'') \<and> js ''KEY'' \<noteq> []
      \<and> destructure ada_request ''profileData'' = Inr (getMemberOpt ada_request ''profileData'')
      \<and> createPrompt (getMemberOpt ada_request ''profileData'')
          = Inr (promptTemplate (js ''Ada'') (js ''Engineer'') (js ''undefined'') (js ''undefined''))
      \<and> blocking_network (apiUrl (js ''KEY''))
            (promptTemplate (js ''Ada'') (js ''Engineer'') (js ''undefined'') (js ''undefined''))
          = HttpOk (Inr safety_response)"
    using createPrompt_ada
    by (simp add: js_Nil_iff destructure_def getMemberOpt_def ada_request_def blocking_network_def)
  have e: "handleGenerateMessage (Some (js ''KEY'')) blocking_network ada_request
      = Inr (handleResponseData safety_response)"
    by (rule generation_three_way [where fetch = blocking_network, THEN conjunct2, THEN conjunct2,
          THEN conjunct2, THEN conjunct2, THEN conjunct2, THEN conjunct2, THEN conjunct2,
          rule_format, OF he])
  have e': "handleGenerateMessage (Some (js ''KEY'')) blocking_network ada_request
      = Inr (failure (blockedMessage (js ''SAFETY'')))"
    using e c by simp
  show ?thesis
    by (intro conjI a b1 b2 b3 b4 c [THEN conjunct1] c [THEN conjunct2] d e')
qed

text \<open>
  The claim as stated, success for every body with at least one candidate, fails for a
  candidate that carries no content (as the API returns when it stops a candidate for
  safety): reading \<open>.parts\<close> of the missing content throws, and the client answers with
  the message of that error.
\<close>

theorem generation_three_way_counterexample:
  "candidates textless_response = Some [\<lparr>content = None\<rparr>]
   \<and> handleResponseData textless_response = failure (cannotRead ''undefined'' ''parts'')
   \<and> getMemberOpt (handleResponseData textless_response) ''success'' = JBool False"
  by (simp add: textless_response_def handleResponseData_def candidateText_def failure_def
      getMemberOpt_def field_def)


section \<open>The prompt for Ada (C8)\<close>

text \<open>
  C8. For the profile \<open>{name: 'Ada', headline: 'Engineer'}\<close> sent with the user context
  \<open>{userContext: 'CS grad', userRole: 'developer'}\<close>, prompt construction yields the
  template filled with \<open>Ada\<close>, \<open>Engineer\<close> and twice \<open>undefined\<close>; \<open>Hi Ada,\<close> occurs
  in it and so does \<open>Engineer\<close>; and it is the prompt that \<open>handleGenerateMessage\<close> sends
  (a network that fails with the prompt it was sent as its message shows it).
\<close>

theorem prompt_for_ada:
  "createPrompt (getMemberOpt ada_request ''profileData'')
     = Inr (promptTemplate (js ''Ada'') (js ''Engineer'') (js ''undefined'') (js ''undefined''))
   \<and> occurs_in (js ''Hi Ada,'')
        (promptTemplate (js ''Ada'') (js ''Engineer'') (js ''undefined'') (js ''undefined''))
   \<and> occurs_in (js ''Engineer'')
        (promptTemplate (js ''Ada'') (js ''Engineer'') (js ''undefined'') (js ''undefined''))
   \<and> handleGenerateMessage (Some (js ''KEY'')) echo_network ada_request
       = Inr (failure
           (promptTemplate (js ''Ada'') (js ''Engineer'') (js ''undefined'') (js ''undefined'')))"
proof -
  have g: "js ''Hi Ada,'' = js ''Hi '' @ js ''Ada'' @ js '',''"
    by (simp add: js_append [symmetric])
  have a: "occurs_in (js ''Hi Ada,'')
        (promptTemplate (js ''Ada'') (js ''Engineer'') (js ''undefined'') (js ''undefined''))"
    unfolding occurs_in_def g
    by (rule promptTemplate_greeting)
  have b: "occurs_in (js ''Engineer'')
        (promptTemplate (js ''Ada'') (js ''Engineer'') (js ''undefined'') (js ''undefined''))"
    unfolding occurs_in_def
    by (rule promptTemplate_headline)
  have pd: "destructure ada_request ''profileData'' = Inr (getMemberOpt ada_request ''profileData'')"
    by (simp add: destructure_def getMemberOpt_def ada_request_def)
  have c: "handleGenerateMessage (Some (js ''KEY'')) echo_network ada_request
       = Inr (failure
           (promptTemplate (js ''Ada'') (js ''Engineer'') (js ''undefined'') (js ''undefined'')))"
    by (simp add: handleGenerateMessage_def pd createPrompt_ada echo_network_def js_Nil_iff)
  show ?thesis using createPrompt_ada a b c by simp
qed

section \<open>One installation, one retry (C1)\<close>

text \<open>
  C1, as amended. For a delivery request to a LinkedIn tab that never answers the liveness
  probe ready, \<open>sendMessageToTab\<close> sends one probe and makes exactly one installation
  attempt. When the installation is refused it reports the channel failure at once, with
  no delivery; when the installation completes it waits and makes exactly one delivery,
  and reports the channel failure if that delivery is rejected, else the response. No
  request, whatever the browser does, causes more than one installation attempt, more
  than one probe or more than two deliveries, in \<open>sendMessageToTab\<close> and in the popup's
  delivery of \<open>getProfileData\<close> alike: nothing loops. \<open>sendMessageToTab\<close> delivers twice
  only when the probe is answered ready and the delivery that follows it is rejected.
\<close>

theorem bridge_one_install_one_retry:
  "(probeUnanswered api tabId \<and> onLinkedIn api tabId w \<longrightarrow>
      (let w1 = snd (tabs_get api tabId w);
           w2 = snd (tabs_sendMessage api tabId ping w1);
           installation = scripting_executeScript api tabId w2;
           (response, events, w') = sendMessageToTab api tabId message w
       in probes events = 1 \<and> installs events = 1
          \<and> (case fst installation of
                Inl m \<Rightarrow>
                  events = [TabsGet tabId, Probe tabId, ExecuteScript tabId]
                  \<and> deliveries events = 0
                  \<and> response = injectionFailed
              | Inr u \<Rightarrow>
                  events = [TabsGet tabId, Probe tabId, ExecuteScript tabId, Wait 1500,
                            Deliver tabId message]
                  \<and> deliveries events = 1
                  \<and> response =
                      (case fst (tabs_sendMessage api tabId message (snd installation)) of
                         Inl m \<Rightarrow> injectionFailed
                       | Inr r \<Rightarrow> r))))
   \<and> installs (fst (snd (sendMessageToTab api tabId message w))) \<le> 1
   \<and> deliveries (fst (snd (sendMessageToTab api tabId message w))) \<le> 2
   \<and> probes (fst (snd (sendMessageToTab api tabId message w))) \<le> 1
   \<and> (deliveries (fst (snd (sendMessageToTab api tabId message w))) = 2 \<longrightarrow>
        onLinkedIn api tabId w
        \<and> answersReady (fst (tabs_sendMessage api tabId ping (snd (tabs_get api tabId w))))
        \<and> (\<exists>m. fst (tabs_sendMessage api tabId message
                    (snd (tabs_sendMessage api tabId ping (snd (tabs_get api tabId w))))) = Inl m))
   \<and> installs (fst (snd (popup_getProfileData api tabId w))) \<le> 1
   \<and> deliveries (fst (snd (popup_getProfileData api tabId w))) \<le> 2"
proof -
  have a: "(let w1 = snd (tabs_get api tabId w);
           w2 = snd (tabs_sendMessage api tabId ping w1);
           installation = scripting_executeScript api tabId w2;
           (response, events, w') = sendMessageToTab api tabId message w
       in probes events = 1 \<and> installs events = 1
          \<and> (case fst installation of
                Inl m \<Rightarrow>
                  events = [TabsGet tabId, Probe tabId, ExecuteScript tabId]
                  \<and> deliveries events = 0
                  \<and> response = injectionFailed
              | Inr u \<Rightarrow>
                  events = [TabsGet tabId, Probe tabId, ExecuteScript tabId, Wait 1500,
                            Deliver tabId message]
                  \<and> deliveries events = 1
                  \<and> response =
                      (case fst (tabs_sendMessage api tabId message (snd installation)) of
                         Inl m \<Rightarrow> injectionFailed
                       | Inr r \<Rightarrow> r)))"
    if "probeUnanswered api tabId" "onLinkedIn api tabId w"
    unfolding unanswered_probe [OF that]
    by (auto simp: Let_def after_def injectAndSend_def count_defs
        split: prod.splits sum.splits)
  show ?thesis
    using a sendMessageToTab_bounds [of api tabId message w] popup_bounds [of api tabId w]
      two_deliveries_only_after_ready [of api tabId message w]
    by blast
qed

text \<open>
  The theorem at a tab that never answers, with and without a successful injection, and
  at a tab that is reloaded after a ready probe.
\<close>

theorem bridge_one_install_one_retry_witness:
  "fst (snd (sendMessageToTab silent_browser 7 showGenerateButton 0))
     = [TabsGet 7, Probe 7, ExecuteScript 7, Wait 1500, Deliver 7 showGenerateButton]
   \<and> fst (sendMessageToTab silent_browser 7 showGenerateButton 0) = injectionFailed
   \<and> installs (fst (snd (sendMessageToTab silent_browser 7 showGenerateButton 0))) = 1
   \<and> deliveries (fst (snd (sendMessageToTab silent_browser 7 showGenerateButton 0))) = 1
   \<and> fst (snd (sendMessageToTab locked_browser 7 showGenerateButton 0))
     = [TabsGet 7, Probe 7, ExecuteScript 7]
   \<and> fst (sendMessageToTab locked_browser 7 showGenerateButton 0) = injectionFailed
   \<and> deliveries (fst (snd (sendMessageToTab reloading_browser 7 showGenerateButton 0))) = 2
   \<and> answersReady (fst (tabs_sendMessage reloading_browser 7 ping
        (snd (tabs_get reloading_browser 7 0))))
   \<and> (\<exists>m. fst (tabs_sendMessage reloading_browser 7 showGenerateButton
        (snd (tabs_sendMessage reloading_browser 7 ping (snd (tabs_get reloading_browser 7 0)))))
        = Inl m)"
proof -
  have s: "fst (snd (sendMessageToTab silent_browser 7 showGenerateButton 0))
     = [TabsGet 7, Probe 7, ExecuteScript 7, Wait 1500, Deliver 7 showGenerateButton]
   \<and> fst (sendMessageToTab silent_browser 7 showGenerateButton 0) = injectionFailed
   \<and> installs (fst (snd (sendMessageToTab silent_browser 7 showGenerateButton 0))) = 1
   \<and> deliveries (fst (snd (sendMessageToTab silent_browser 7 showGenerateButton 0))) = 1"
    using bridge_one_install_one_retry [of silent_browser 7 0 showGenerateButton,
        THEN conjunct1, rule_format, OF silent_browser_unanswered]
    by (simp add: Let_def split_def silent_browser_calls count_defs)
  have l: "fst (snd (sendMessageToTab locked_browser 7 showGenerateButton 0))
     = [TabsGet 7, Probe 7, ExecuteScript 7]
   \<and> fst (sendMessageToTab locked_browser 7 showGenerateButton 0) = injectionFailed"
    using bridge_one_install_one_retry [of locked_browser 7 0 showGenerateButton,
        THEN conjunct1, rule_format, OF locked_browser_unanswered]
    by (simp add: Let_def split_def locked_browser_calls count_defs)
  have two: "deliveries (fst (snd (sendMessageToTab reloading_browser 7 showGenerateButton 0))) = 2"
    by (simp add: reloading_browser_run count_defs)
  have r: "answersReady (fst (tabs_sendMessage reloading_browser 7 ping
        (snd (tabs_get reloading_browser 7 0))))
   \<and> (\<exists>m. fst (tabs_sendMessage reloading_browser 7 showGenerateButton
        (snd (tabs_sendMessage reloading_browser 7 ping (snd (tabs_get reloading_browser 7 0)))))
        = Inl m)"
    using bridge_one_install_one_retry [of reloading_browser 7 0 showGenerateButton,
        THEN conjunct2, THEN conjunct2, THEN conjunct2, THEN conjunct2, THEN conjunct1,
        rule_format, OF two]
    by blast
  show ?thesis using s l two r by blast
qed

text \<open>
  The claim as stated, exactly one post-install delivery for every tab that never answers
  the probe, fails when the installation itself is refused: the bridge reports the failure
  after the one installation attempt, without any delivery.
\<close>

theorem bridge_one_install_one_retry_counterexample:
  "probeUnanswered locked_browser 7
   \<and> onLinkedIn locked_browser 7 0
   \<and> sendMessageToTab locked_browser 7 showGenerateButton 0
       = (injectionFailed, [TabsGet 7, Probe 7, ExecuteScript 7], 3)
   \<and> deliveries [TabsGet 7, Probe 7, ExecuteScript 7] = 0"
proof -
  have "sendMessageToTab locked_browser 7 showGenerateButton 0
       = (injectionFailed, [TabsGet 7, Probe 7, ExecuteScript 7], 3)"
    by (simp add: sendMessageToTab_def injectAndSend_def after_def locked_browser_def ada_tab_def
        str_includes_js numeral_3_eq_3)
  then show ?thesis
    using locked_browser_unanswered by (simp add: count_defs)
qed


section \<open>A ready script (C6)\<close>

text \<open>
  C6, as amended. For a delivery request to a LinkedIn tab whose first probe is answered
  ready, the bridge delivers the request right after the probe. When that delivery
  resolves, it returns the response as it is and makes no installation attempt. When that
  delivery is rejected, it falls back to the injection: one installation attempt and, when
  the installation completes, a wait and one more delivery.
\<close>

theorem ready_probe_no_install:
  "(onLinkedIn api tabId w
      \<and> tabs_sendMessage api tabId ping (snd (tabs_get api tabId w)) = (Inr pingResponse, w2)
      \<and> truthy (getMemberOpt pingResponse ''ready'')
      \<and> tabs_sendMessage api tabId message w2 = (Inr response, w3)
      \<longrightarrow> sendMessageToTab api tabId message w
            = (response, [TabsGet tabId, Probe tabId, Deliver tabId message], w3)
          \<and> installs (fst (snd (sendMessageToTab api tabId message w))) = 0)
   \<and> (onLinkedIn api tabId w
      \<and> tabs_sendMessage api tabId ping (snd (tabs_get api tabId w)) = (Inr pingResponse, w2)
      \<and> truthy (getMemberOpt pingResponse ''ready'')
      \<and> tabs_sendMessage api tabId message w2 = (Inl m, w3)
      \<longrightarrow> installs (fst (snd (sendMessageToTab api tabId message w))) = 1
          \<and> (case fst (scripting_executeScript api tabId w3) of
                Inl m' \<Rightarrow>
                  fst (snd (sendMessageToTab api tabId message w))
                    = [TabsGet tabId, Probe tabId, Deliver tabId message, ExecuteScript tabId]
                  \<and> fst (sendMessageToTab api tabId message w) = injectionFailed
              | Inr u \<Rightarrow>
                  fst (snd (sendMessageToTab api tabId message w))
                    = [TabsGet tabId, Probe tabId, Deliver tabId message, ExecuteScript tabId,
                       Wait 1500, Deliver tabId message]
                  \<and> fst (sendMessageToTab api tabId message w)
                      = (case fst (tabs_sendMessage api tabId message
                                     (snd (scripting_executeScript api tabId w3))) of
                           Inl m' \<Rightarrow> injectionFailed
                         | Inr r \<Rightarrow> r)))"
proof -
  have a: "sendMessageToTab api tabId message w
            = (response, [TabsGet tabId, Probe tabId, Deliver tabId message], w3)
          \<and> installs (fst (snd (sendMessageToTab api tabId message w))) = 0"
    if "onLinkedIn api tabId w"
      "tabs_sendMessage api tabId ping (snd (tabs_get api tabId w)) = (Inr pingResponse, w2)"
      "truthy (getMemberOpt pingResponse ''ready'')"
      "tabs_sendMessage api tabId message w2 = (Inr response, w3)"
    using ready_probe_delivers [OF that] by (simp add: count_defs)
  have b: "installs (fst (snd (sendMessageToTab api tabId message w))) = 1
          \<and> (case fst (scripting_executeScript api tabId w3) of
                Inl m' \<Rightarrow>
                  fst (snd (sendMessageToTab api tabId message w))
                    = [TabsGet tabId, Probe tabId, Deliver tabId message, ExecuteScript tabId]
                  \<and> fst (sendMessageToTab api tabId message w) = injectionFailed
              | Inr u \<Rightarrow>
                  fst (snd (sendMessageToTab api tabId message w))
                    = [TabsGet tabId, Probe tabId, Deliver tabId message, ExecuteScript tabId,
                       Wait 1500, Deliver tabId message]
                  \<and> fst (sendMessageToTab api tabId message w)
                      = (case fst (tabs_sendMessage api tabId message
                                     (snd (scripting_executeScript api tabId w3))) of
                           Inl m' \<Rightarrow> injectionFailed
                         | Inr r \<Rightarrow> r))"
    if "onLinkedIn api tabId w"
      "tabs_sendMessage api tabId ping (snd (tabs_get api tabId w)) = (Inr pingResponse, w2)"
      "truthy (getMemberOpt pingResponse ''ready'')"
      "tabs_sendMessage api tabId message w2 = (Inl m, w3)"
    unfolding ready_probe_rejected_delivery [OF that]
    by (auto simp: after_def injectAndSend_def count_defs split: prod.splits sum.splits)
  show ?thesis using a b by blast
qed

text \<open>The theorem at a tab whose script is loaded, and at a tab that is reloaded after
  the probe.\<close>

theorem ready_probe_no_install_witness:
  "sendMessageToTab ready_browser 7 showGenerateButton 0
     = (failure (js ''Unknown action''), [TabsGet 7, Probe 7, Deliver 7 showGenerateButton], 3)
   \<and> installs (fst (snd (sendMessageToTab ready_browser 7 showGenerateButton 0))) = 0
   \<and> installs (fst (snd (sendMessageToTab reloading_browser 7 showGenerateButton 0))) = 1
   \<and> fst (snd (sendMessageToTab reloading_browser 7 showGenerateButton 0))
       = [TabsGet 7, Probe 7, Deliver 7 showGenerateButton, ExecuteScript 7, Wait 1500,
          Deliver 7 showGenerateButton]
   \<and> fst (sendMessageToTab reloading_browser 7 showGenerateButton 0)
       = failure (js ''Unknown action'')"
proof -
  have ne: "showGenerateButton \<noteq> ping"
    by (simp add: showGenerateButton_def ping_def js_eq_iff)
  have h1: "onLinkedIn ready_browser 7 0
      \<and> tabs_sendMessage ready_browser 7 ping (snd (tabs_get ready_browser 7 0))
          = (Inr (JObj [(js ''ready'', JBool True)]), 2)
      \<and> truthy (getMemberOpt (JObj [(js ''ready'', JBool True)]) ''ready'')
      \<and> tabs_sendMessage ready_browser 7 showGenerateButton 2
          = (Inr (failure (js ''Unknown action'')), 3)"
    using ne
    by (simp add: ready_browser_def onLinkedIn_def ada_tab_def str_includes_js getMemberOpt_def
        field_def numeral_2_eq_2 numeral_3_eq_3)
  have a: "sendMessageToTab ready_browser 7 showGenerateButton 0
     = (failure (js ''Unknown action''), [TabsGet 7, Probe 7, Deliver 7 showGenerateButton], 3)
   \<and> installs (fst (snd (sendMessageToTab ready_browser 7 showGenerateButton 0))) = 0"
    by (rule ready_probe_no_install [THEN conjunct1, rule_format, OF h1])
  have h2: "onLinkedIn reloading_browser 7 0
      \<and> tabs_sendMessage reloading_browser 7 ping (snd (tabs_get reloading_browser 7 0))
          = (Inr (JObj [(js ''ready'', JBool True)]), 2)
      \<and> truthy (getMemberOpt (JObj [(js ''ready'', JBool True)]) ''ready'')
      \<and> tabs_sendMessage reloading_browser 7 showGenerateButton 2
          = (Inl (js ''Could not establish connection. Receiving end does not exist.''), 3)"
    by (simp add: reloading_browser_def onLinkedIn_def ada_tab_def str_includes_js getMemberOpt_def
        field_def numeral_2_eq_2 numeral_3_eq_3)
  have b: "installs (fst (snd (sendMessageToTab reloading_browser 7 showGenerateButton 0))) = 1
   \<and> fst (snd (sendMessageToTab reloading_browser 7 showGenerateButton 0))
       = [TabsGet 7, Probe 7, Deliver 7 showGenerateButton, ExecuteScript 7, Wait 1500,
          Deliver 7 showGenerateButton]
   \<and> fst (sendMessageToTab reloading_browser 7 showGenerateButton 0)
       = failure (js ''Unknown action'')"
    using ready_probe_no_install [THEN conjunct2, rule_format, OF h2]
    by (simp add: reloading_browser_calls count_defs)
  show ?thesis using a b by blast
qed

text \<open>
  The claim as stated, no installation attempt for every tab whose first probe is answered
  ready, fails when the delivery that follows the probe is rejected: at a tab that is
  reloaded between the two, the bridge installs once and delivers a second time.
\<close>

theorem ready_probe_no_install_counterexample:
  "onLinkedIn reloading_browser 7 0
   \<and> answersReady (fst (tabs_sendMessage reloading_browser 7 ping 1))
   \<and> sendMessageToTab reloading_browser 7 showGenerateButton 0
       = (failure (js ''Unknown action''),
          [TabsGet 7, Probe 7, Deliver 7 showGenerateButton, ExecuteScript 7, Wait 1500,
           Deliver 7 showGenerateButton], 5)
   \<and> installs [TabsGet 7, Probe 7, Deliver 7 showGenerateButton, ExecuteScript 7, Wait 1500,
           Deliver 7 showGenerateButton] = 1"
  using reloading_browser_run
  by (simp add: browser_eval count_defs getMemberOpt_def field_def)

end
